theory Spec2Isabelle
  imports Complex_Main "HOL-Library.Multiset"
begin

section \<open>Python values used by \<^verbatim>\<open>impurity.py\<close>\<close>

text \<open>
  The constructor of \<^verbatim>\<open>Impurity\<close> stores most of its settings with a trailing comma:
  \<^verbatim>\<open>self.state_ids = (state_ids,)\<close>, \<^verbatim>\<open>self.autoionization = (autoionization,)\<close>, ...
  The attribute is then a Python tuple of length one holding the setting, and every later
  test of the attribute is a test of that tuple.  The tuple is modelled by its own type,
  and each test the methods perform on it is written out below.
\<close>

datatype 'a tuple1 = Tuple1 'a

text \<open>\<^verbatim>\<open>if t:\<close> on a tuple: a tuple is true exactly when it is not empty.\<close>

fun truthy :: "'a tuple1 \<Rightarrow> bool" where
  "truthy (Tuple1 x) = True"

text \<open>\<^verbatim>\<open>t is not None\<close> on a tuple: a tuple object is never the object \<^verbatim>\<open>None\<close>.\<close>

fun is_not_None :: "'a tuple1 \<Rightarrow> bool" where
  "is_not_None (Tuple1 x) = True"

text \<open>\<^verbatim>\<open>t is False\<close> on a tuple: a tuple object is never the object \<^verbatim>\<open>False\<close>.\<close>

fun is_False :: "'a tuple1 \<Rightarrow> bool" where
  "is_False (Tuple1 x) = False"

text \<open>
  \<^verbatim>\<open>i == v\<close> for an integer \<^verbatim>\<open>i\<close> and \<^verbatim>\<open>v\<close> a list of integers or \<^verbatim>\<open>None\<close>
  (the two values the parameter \<^verbatim>\<open>state_ids\<close> takes): an integer equals neither.
\<close>

fun int_eq_ids :: "int \<Rightarrow> int list option \<Rightarrow> bool" where
  "int_eq_ids i None = False"
| "int_eq_ids i (Some xs) = False"

text \<open>\<^verbatim>\<open>i in t\<close> for a tuple of length one: \<^verbatim>\<open>i\<close> is compared with the one element.\<close>

fun in_tuple1 :: "int \<Rightarrow> int list option tuple1 \<Rightarrow> bool" where
  "in_tuple1 i (Tuple1 v) = int_eq_ids i v"

text \<open>The exceptions the modelled methods can raise.\<close>

datatype error =
    GridMismatchError   \<comment> \<open>\<^verbatim>\<open>ValueError("Energy grid is different from grid on which ...")\<close>\<close>
  | BroadcastError      \<comment> \<open>numpy: operands could not be broadcast together\<close>
  | ZeroSizeError       \<comment> \<open>numpy: zero-size array to reduction operation maximum\<close>
  | ArgminEmptyError    \<comment> \<open>numpy: attempt to get argmin of an empty sequence\<close>
  | IndexError
  | KeyError int        \<comment> \<open>a state id missing from the dictionary \<^verbatim>\<open>id2pos\<close>\<close>
  | NameKeyError string \<comment> \<open>an element name missing from \<^verbatim>\<open>nuc_chg_dict\<close>\<close>
  | ZeroDivisionError
  | TypeError           \<comment> \<open>can't multiply sequence by non-int of type 'numpy.float64'\<close>
  | NegativeDimError    \<comment> \<open>numpy: negative dimensions are not allowed\<close>

section \<open>Data model\<close>

text \<open>
  The classes \<^verbatim>\<open>State\<close> and the transition classes live in modules that are imported by
  \<^verbatim>\<open>impurity.py\<close>; the records hold the attributes that \<^verbatim>\<open>impurity.py\<close> reads and writes.
  Energies, weights and densities are Python floats and are modelled by real numbers.
  The attribute \<^verbatim>\<open>id\<close> is named \<open>state_id\<close> and \<^verbatim>\<open>type\<close> is named \<open>trans_type\<close>.
\<close>

record state =
  state_id :: int
  Z :: int
  energy :: real
  stat_weight :: real
  ground :: bool
  iz_energy :: real
  energy_from_gs :: real
  pos :: nat

record transition =
  trans_type :: string
  from_id :: int
  to_id :: int
  from_pos :: nat
  to_pos :: nat

record impurity =
  state_ids :: "int list option tuple1"
  kinetic_electrons :: "bool tuple1"
  maxwellian_electrons :: "bool tuple1"
  saha_boltzmann_init :: "bool tuple1"
  fixed_fraction_init :: "bool tuple1"
  frac_imp_dens :: "real tuple1"
  ionization :: "bool tuple1"
  autoionization :: "bool tuple1"
  emission :: "bool tuple1"
  radiative_recombination :: "bool tuple1"
  excitation :: "bool tuple1"
  T_norm :: real
  n_norm :: real
  num_Z :: nat
  states :: "state list"
  tot_states :: int
  transitions :: "transition list"
  dens :: "real list list"
  dens_Max :: "real list list"
  num_P_states :: nat
  num_Q_states :: nat

section \<open>Position Indexer\<close>

text \<open>
  \<^verbatim>\<open>set_state_positions\<close>: \<^verbatim>\<open>for i, state in enumerate(self.states): self.states[i].pos = i\<close>.
\<close>

fun set_pos_from :: "nat \<Rightarrow> state list \<Rightarrow> state list" where
  "set_pos_from i [] = []"
| "set_pos_from i (s # ss) = s\<lparr>pos := i\<rparr> # set_pos_from (Suc i) ss"

definition set_state_positions :: "impurity \<Rightarrow> impurity" where
  "set_state_positions imp = imp\<lparr>states := set_pos_from 0 (states imp)\<rparr>"

text \<open>
  \<^verbatim>\<open>set_transition_positions\<close>: the dictionary \<^verbatim>\<open>id2pos\<close> is filled in list order, a later
  state overwriting the entry of an earlier one with the same id; then every transition
  reads its two positions from it, and a missing key raises \<^verbatim>\<open>KeyError\<close>.
\<close>

fun build_id2pos :: "nat \<Rightarrow> state list \<Rightarrow> (int \<rightharpoonup> nat) \<Rightarrow> (int \<rightharpoonup> nat)" where
  "build_id2pos i [] m = m"
| "build_id2pos i (s # ss) m = build_id2pos (Suc i) ss (m(state_id s \<mapsto> i))"

fun set_trans_pos_loop :: "(int \<rightharpoonup> nat) \<Rightarrow> transition list \<Rightarrow> error + transition list" where
  "set_trans_pos_loop m [] = Inr []"
| "set_trans_pos_loop m (t # ts) =
     (case m (from_id t) of
        None \<Rightarrow> Inl (KeyError (from_id t))
      | Some fp \<Rightarrow>
          (case m (to_id t) of
             None \<Rightarrow> Inl (KeyError (to_id t))
           | Some tp \<Rightarrow>
               (case set_trans_pos_loop m ts of
                  Inl e \<Rightarrow> Inl e
                | Inr ts' \<Rightarrow> Inr (t\<lparr>from_pos := fp, to_pos := tp\<rparr> # ts'))))"

definition set_transition_positions :: "impurity \<Rightarrow> error + impurity" where
  "set_transition_positions imp =
     (let id2pos = build_id2pos 0 (states imp) Map.empty in
      case set_trans_pos_loop id2pos (transitions imp) of
        Inl e \<Rightarrow> Inl e
      | Inr ts' \<Rightarrow> Inr (imp\<lparr>transitions := ts'\<rparr>))"

text \<open>
  \<^verbatim>\<open>reorder_PQ_states\<close>: with \<^verbatim>\<open>P_states == "ground"\<close> the state list becomes the states
  whose \<^verbatim>\<open>ground is True\<close> followed by those whose \<^verbatim>\<open>ground is False\<close>, and the two counts
  are stored; in every case both indexing passes are run again.
\<close>

definition reorder_PQ_states :: "impurity \<Rightarrow> string \<Rightarrow> error + impurity" where
  "reorder_PQ_states imp P_states =
     (let imp1 =
        (if P_states = ''ground'' then
           (let ground_states = filter (\<lambda>s. ground s = True) (states imp);
                other_states = filter (\<lambda>s. ground s = False) (states imp)
            in imp\<lparr>num_P_states := length ground_states,
                    num_Q_states := length other_states,
                    states := ground_states @ other_states\<rparr>)
         else imp)
      in set_transition_positions (set_state_positions imp1))"

section \<open>Integrity Checker\<close>

text \<open>
  The removal pattern of the source: entries are overwritten by \<^verbatim>\<open>None\<close> in a loop, then the
  list is rebuilt by \<^verbatim>\<open>[s for s in xs if s is not None]\<close>.
\<close>

fun compact :: "'a option list \<Rightarrow> 'a list" where
  "compact [] = []"
| "compact (None # xs) = compact xs"
| "compact (Some x # xs) = x # compact xs"

definition null_count :: "'a option list \<Rightarrow> nat" where
  "null_count xs = length (filter (\<lambda>x. x = None) xs)"

text \<open>
  \<^verbatim>\<open>Egrid - trans_Egrid\<close> for one-dimensional arrays, with numpy's broadcasting of an array
  of length one, and \<^verbatim>\<open>np.max\<close>, which raises on an empty array.
\<close>

definition np_sub :: "real list \<Rightarrow> real list \<Rightarrow> error + real list" where
  "np_sub xs ys =
     (if length xs = length ys then Inr (map2 (\<lambda>x y. x - y) xs ys)
      else if length xs = 1 then Inr (map (\<lambda>y. hd xs - y) ys)
      else if length ys = 1 then Inr (map (\<lambda>x. x - hd ys) xs)
      else Inl BroadcastError)"

definition np_max :: "real list \<Rightarrow> error + real" where
  "np_max xs = (if xs = [] then Inl ZeroSizeError else Inr (Max (set xs)))"

text \<open>
  The first statement of \<^verbatim>\<open>state_and_transition_checks\<close>:
  \<^verbatim>\<open>if np.max(np.abs(Egrid - trans_Egrid)) > 1e-5: raise ValueError(...)\<close>.
\<close>

definition grid_check :: "real list \<Rightarrow> real list \<Rightarrow> error + unit" where
  "grid_check Egrid trans_Egrid =
     (case np_sub Egrid trans_Egrid of
        Inl e \<Rightarrow> Inl e
      | Inr d \<Rightarrow>
          (case np_max (map abs d) of
             Inl e \<Rightarrow> Inl e
           | Inr m \<Rightarrow> if m > 1 / 100000 then Inl GridMismatchError else Inr ()))"

text \<open>
  Modelled from the spec: \<^verbatim>\<open>core.get_associated_transitions\<close> is not part of
  \<^verbatim>\<open>impurity.py\<close>.  Given a state identifier and the from/to identifier arrays of all
  transitions, it returns the indices of the transitions touching that state.
\<close>

definition get_associated_transitions :: "int \<Rightarrow> int list \<Rightarrow> int list \<Rightarrow> nat list" where
  "get_associated_transitions sid from_ids to_ids =
     filter (\<lambda>i. from_ids ! i = sid \<or> to_ids ! i = sid) [0..<length from_ids]"

text \<open>Orphaned states: the identifier arrays are taken from the transitions before the loop.\<close>

definition mark_orphaned_states :: "int list \<Rightarrow> int list \<Rightarrow> state list \<Rightarrow> state option list" where
  "mark_orphaned_states from_ids to_ids sts =
     map (\<lambda>s. if length (get_associated_transitions (state_id s) from_ids to_ids) = 0
              then None else Some s) sts"

definition remove_orphaned_states :: "impurity \<Rightarrow> impurity" where
  "remove_orphaned_states imp =
     (let from_ids = map from_id (transitions imp);
          to_ids = map to_id (transitions imp);
          marked = mark_orphaned_states from_ids to_ids (states imp)
      in imp\<lparr>states := compact marked,
              tot_states := tot_states imp - int (null_count marked)\<rparr>)"

text \<open>
  States above the ionization energy: the loop is guarded by
  \<^verbatim>\<open>if self.autoionization is False\<close>; the list is rebuilt in either case.
\<close>

definition mark_negative_iz_states :: "state list \<Rightarrow> state option list" where
  "mark_negative_iz_states sts = map (\<lambda>s. if iz_energy s < 0 then None else Some s) sts"

definition remove_negative_iz_states :: "impurity \<Rightarrow> impurity" where
  "remove_negative_iz_states imp =
     (if is_False (autoionization imp) then
        (let marked = mark_negative_iz_states (states imp)
         in imp\<lparr>states := compact marked,
                 tot_states := tot_states imp - int (null_count marked)\<rparr>)
      else imp\<lparr>states := compact (map Some (states imp))\<rparr>)"

text \<open>Orphaned transitions: either endpoint is not the id of a state of the current list.\<close>

definition mark_orphaned_transitions :: "int list \<Rightarrow> transition list \<Rightarrow> transition option list" where
  "mark_orphaned_transitions ids ts =
     map (\<lambda>t. if from_id t \<notin> set ids \<or> to_id t \<notin> set ids then None else Some t) ts"

definition remove_orphaned_transitions :: "impurity \<Rightarrow> impurity" where
  "remove_orphaned_transitions imp =
     (let ids = map state_id (states imp)
      in imp\<lparr>transitions := compact (mark_orphaned_transitions ids (transitions imp))\<rparr>)"

definition state_and_transition_checks :: "impurity \<Rightarrow> real list \<Rightarrow> real list \<Rightarrow> error + impurity" where
  "state_and_transition_checks imp Egrid trans_Egrid =
     (case grid_check Egrid trans_Egrid of
        Inl e \<Rightarrow> Inl e
      | Inr u \<Rightarrow>
          Inr (remove_orphaned_transitions (remove_negative_iz_states (remove_orphaned_states imp))))"

section \<open>State Catalog Loader\<close>

text \<open>Index of the first element satisfying a test: a \<^verbatim>\<open>for\<close> loop left by \<^verbatim>\<open>break\<close>.\<close>

fun first_index :: "('a \<Rightarrow> bool) \<Rightarrow> 'a list \<Rightarrow> nat option" where
  "first_index P [] = None"
| "first_index P (x # xs) = (if P x then Some 0 else map_option Suc (first_index P xs))"

text \<open>\<^verbatim>\<open>np.argmin\<close>: the index of the first occurrence of the minimum; it raises on an empty list.\<close>

definition np_argmin :: "real list \<Rightarrow> error + nat" where
  "np_argmin es =
     (case first_index (\<lambda>e. e = Min (set es)) es of
        None \<Rightarrow> Inl ArgminEmptyError
      | Some k \<Rightarrow> Inr k)"

text \<open>Reading a numpy array at an integer: a negative index counts from the end.\<close>

definition np_get :: "'a list \<Rightarrow> int \<Rightarrow> error + 'a" where
  "np_get xs i =
     (let n = int (length xs)
      in if 0 \<le> i \<and> i < n then Inr (xs ! nat i)
         else if - n \<le> i \<and> i < 0 then Inr (xs ! nat (n + i))
         else Inl IndexError)"

text \<open>
  The first loop of \<^verbatim>\<open>init_ionization_energies\<close>, over \<^verbatim>\<open>Z in range(self.num_Z)\<close>.  The method
  \<^verbatim>\<open>State.equals\<close> belongs to a module that is not part of \<^verbatim>\<open>impurity.py\<close> and is a parameter.
  When no state of the list equals the chosen one, the two arrays keep their entries.
\<close>

fun find_gs :: "(state \<Rightarrow> state \<Rightarrow> bool) \<Rightarrow> state list \<Rightarrow> nat list \<Rightarrow> real list \<times> nat list
    \<Rightarrow> error + real list \<times> nat list" where
  "find_gs equals sts [] acc = Inr acc"
| "find_gs equals sts (z # zs) (gs_energies, gs_pos) =
     (let Z_states = filter (\<lambda>s. Z s = int z) sts;
          energies = map energy Z_states
      in case np_argmin energies of
           Inl e \<Rightarrow> Inl e
         | Inr k \<Rightarrow>
             (let gs = Z_states ! k
              in case first_index (\<lambda>s. equals s gs) sts of
                   None \<Rightarrow> find_gs equals sts zs (gs_energies, gs_pos)
                 | Some i \<Rightarrow>
                     find_gs equals sts zs (gs_energies[z := energy gs], gs_pos[z := i])))"

text \<open>The body of the second loop, for the state at index \<open>i\<close>.\<close>

definition mark_state :: "nat \<Rightarrow> real list \<Rightarrow> nat list \<Rightarrow> nat \<Rightarrow> state \<Rightarrow> error + state" where
  "mark_state nZ gs_energies gs_pos i s =
     (let s1 = s\<lparr>ground := (i \<in> set gs_pos)\<rparr>
      in case (if Z s1 < int nZ - 1 then
                 (case np_get gs_energies (Z s1 + 1) of
                    Inl e \<Rightarrow> Inl e
                  | Inr g \<Rightarrow> Inr (s1\<lparr>iz_energy := g - energy s1\<rparr>))
               else Inr (s1\<lparr>iz_energy := 0\<rparr>)) of
           Inl e \<Rightarrow> Inl e
         | Inr s2 \<Rightarrow>
             (case np_get gs_energies (Z s2) of
                Inl e \<Rightarrow> Inl e
              | Inr g \<Rightarrow> Inr (s2\<lparr>energy_from_gs := energy s2 - g\<rparr>)))"

fun mark_loop :: "nat \<Rightarrow> real list \<Rightarrow> nat list \<Rightarrow> nat \<Rightarrow> state list \<Rightarrow> error + state list" where
  "mark_loop nZ gs_energies gs_pos i [] = Inr []"
| "mark_loop nZ gs_energies gs_pos i (s # ss) =
     (case mark_state nZ gs_energies gs_pos i s of
        Inl e \<Rightarrow> Inl e
      | Inr s' \<Rightarrow>
          (case mark_loop nZ gs_energies gs_pos (Suc i) ss of
             Inl e \<Rightarrow> Inl e
           | Inr ss' \<Rightarrow> Inr (s' # ss')))"

definition init_ionization_energies :: "(state \<Rightarrow> state \<Rightarrow> bool) \<Rightarrow> impurity \<Rightarrow> error + impurity" where
  "init_ionization_energies equals imp =
     (case find_gs equals (states imp) [0..<num_Z imp]
             (replicate (num_Z imp) 0, replicate (num_Z imp) 0) of
        Inl e \<Rightarrow> Inl e
      | Inr (gs_energies, gs_pos) \<Rightarrow>
          (case mark_loop (num_Z imp) gs_energies gs_pos 0 (states imp) of
             Inl e \<Rightarrow> Inl e
           | Inr sts' \<Rightarrow> Inr (imp\<lparr>states := sts'\<rparr>)))"

text \<open>One entry of the levels file (a \<^verbatim>\<open>level_dict\<close>).\<close>

record level =
  level_Z :: int
  level_energy :: real
  level_stat_weight :: real

text \<open>
  Modelled from the spec: the class \<^verbatim>\<open>State\<close> (module \<^verbatim>\<open>atomic_state\<close>) is not part of
  \<^verbatim>\<open>impurity.py\<close>.  \<^verbatim>\<open>State(id=i, **level_dict)\<close> creates a state from its catalog entry with
  the identifier it is given; its derived and positional attributes are assigned later.
\<close>

definition State :: "int \<Rightarrow> level \<Rightarrow> state" where
  "State i lv =
     \<lparr>state_id = i, Z = level_Z lv, energy = level_energy lv,
      stat_weight = level_stat_weight lv, ground = False, iz_energy = 0,
      energy_from_gs = 0, pos = 0\<rparr>"

fun load_states :: "nat \<Rightarrow> level list \<Rightarrow> state list" where
  "load_states i [] = []"
| "load_states i (lv # lvs) = State (int i) lv # load_states (Suc i) lvs"

text \<open>
  \<^verbatim>\<open>if self.state_ids is not None: ... if state.id not in self.state_ids: self.states[i] = None\<close>.
\<close>

definition keep_user_states :: "impurity \<Rightarrow> state list \<Rightarrow> state option list" where
  "keep_user_states imp sts =
     (if is_not_None (state_ids imp) then
        map (\<lambda>s. if \<not> in_tuple1 (state_id s) (state_ids imp) then None else Some s) sts
      else map Some sts)"

definition init_states :: "(state \<Rightarrow> state \<Rightarrow> bool) \<Rightarrow> impurity \<Rightarrow> level list \<Rightarrow> error + impurity" where
  "init_states equals imp levels_dict =
     (let sts = compact (keep_user_states imp (load_states 0 levels_dict))
      in init_ionization_energies equals
           (imp\<lparr>states := sts, tot_states := int (length sts)\<rparr>))"

section \<open>Transition Graph Builder\<close>

text \<open>
  One entry of the transitions file (an element of \<^verbatim>\<open>trans_dict[1:]\<close>).  The rate data of an
  entry is read and written only inside the transition classes and is left out.
\<close>

record raw_trans =
  raw_type :: string
  raw_from_id :: int
  raw_to_id :: int

text \<open>
  Modelled from the spec: the classes \<^verbatim>\<open>IzTrans\<close>, \<^verbatim>\<open>AiTrans\<close>, \<^verbatim>\<open>RRTrans\<close>, \<^verbatim>\<open>EmTrans\<close> and
  \<^verbatim>\<open>ExTrans\<close> (module \<^verbatim>\<open>transition\<close>) are not part of \<^verbatim>\<open>impurity.py\<close>.  A transition carries
  its type tag and the two endpoint identifiers of its catalog entry, and its cached
  positions are assigned by the Position Indexer.
\<close>

definition make_trans :: "string \<Rightarrow> raw_trans \<Rightarrow> transition" where
  "make_trans ty entry =
     \<lparr>trans_type = ty, from_id = raw_from_id entry, to_id = raw_to_id entry,
      from_pos = 0, to_pos = 0\<rparr>"

definition IzTrans :: "raw_trans \<Rightarrow> transition" where
  "IzTrans entry = make_trans ''ionization'' entry"

definition AiTrans :: "raw_trans \<Rightarrow> transition" where
  "AiTrans entry = make_trans ''autoionization'' entry"

definition RRTrans :: "raw_trans \<Rightarrow> transition" where
  "RRTrans entry = make_trans ''radiative_recombination'' entry"

definition EmTrans :: "raw_trans \<Rightarrow> transition" where
  "EmTrans entry = make_trans ''emission'' entry"

definition ExTrans :: "raw_trans \<Rightarrow> transition" where
  "ExTrans entry = make_trans ''excitation'' entry"

text \<open>
  The body of the loop \<^verbatim>\<open>for i, trans in enumerate(trans_dict[1:])\<close>: \<open>None\<close> is the entry of
  \<^verbatim>\<open>transitions\<close> left untouched by \<^verbatim>\<open>continue\<close> or by the end of the \<^verbatim>\<open>elif\<close> chain.
\<close>

definition create_transition :: "impurity \<Rightarrow> raw_trans \<Rightarrow> transition option" where
  "create_transition imp entry =
     (if is_not_None (state_ids imp) \<and>
         (\<not> in_tuple1 (raw_from_id entry) (state_ids imp) \<or>
          \<not> in_tuple1 (raw_to_id entry) (state_ids imp))
      then None
      else if raw_type entry = ''ionization'' \<and> truthy (ionization imp)
        then Some (IzTrans entry)
      else if raw_type entry = ''autoionization'' \<and> truthy (autoionization imp)
        then Some (AiTrans entry)
      else if raw_type entry = ''radiative_recombination'' \<and> truthy (radiative_recombination imp)
        then Some (RRTrans entry)
      else if raw_type entry = ''emission'' \<and> truthy (emission imp)
        then Some (EmTrans entry)
      else if raw_type entry = ''excitation'' \<and> truthy (excitation imp)
        then Some (ExTrans entry)
      else None)"

text \<open>
  The list \<^verbatim>\<open>transitions\<close> has one slot per element of \<^verbatim>\<open>trans_dict\<close>; the loop runs over
  \<^verbatim>\<open>trans_dict[1:]\<close>, so the last slot stays \<^verbatim>\<open>None\<close>.
\<close>

definition create_transitions :: "impurity \<Rightarrow> raw_trans list \<Rightarrow> transition list" where
  "create_transitions imp entries = compact (map (create_transition imp) entries @ [None])"

text \<open>
  The statistical-weight ratio of the two endpoint states, read through the dictionary
  \<^verbatim>\<open>id2pos\<close>; the weights are the numbers of the levels file, and a Python division by
  zero raises.  The inverse data computed from the ratio (\<^verbatim>\<open>set_sigma_deex\<close>, \<^verbatim>\<open>set_inv_data\<close>) is
  stored inside the transition classes, so the two loops are modelled by what they can raise.
\<close>

definition g_ratio :: "(int \<rightharpoonup> nat) \<Rightarrow> state list \<Rightarrow> transition \<Rightarrow> error + real" where
  "g_ratio id2pos sts t =
     (case id2pos (from_id t) of
        None \<Rightarrow> Inl (KeyError (from_id t))
      | Some i \<Rightarrow>
          (case id2pos (to_id t) of
             None \<Rightarrow> Inl (KeyError (to_id t))
           | Some j \<Rightarrow>
               if stat_weight (sts ! j) = 0 then Inl ZeroDivisionError
               else Inr (stat_weight (sts ! i) / stat_weight (sts ! j))))"

fun inverse_data_loop :: "string \<Rightarrow> (int \<rightharpoonup> nat) \<Rightarrow> state list \<Rightarrow> transition list \<Rightarrow> error + unit" where
  "inverse_data_loop ty id2pos sts [] = Inr ()"
| "inverse_data_loop ty id2pos sts (t # ts) =
     (if trans_type t = ty then
        (case g_ratio id2pos sts t of
           Inl e \<Rightarrow> Inl e
         | Inr g \<Rightarrow> inverse_data_loop ty id2pos sts ts)
      else inverse_data_loop ty id2pos sts ts)"

text \<open>
  \<^verbatim>\<open>init_transitions\<close>.  The transitions file is given by its two parts: the energy grid
  \<^verbatim>\<open>trans_dict[0]["E_grid"]\<close> and the entries \<^verbatim>\<open>trans_dict[1:]\<close>.
\<close>

definition init_transitions :: "impurity \<Rightarrow> real list \<times> raw_trans list \<Rightarrow> real list \<Rightarrow> error + impurity" where
  "init_transitions imp trans_dict Egrid =
     (let trans_Egrid = fst trans_dict;
          imp1 = imp\<lparr>transitions := create_transitions imp (snd trans_dict)\<rparr>;
          id2pos = build_id2pos 0 (states imp1) Map.empty
      in case (if truthy (excitation imp1)
               then inverse_data_loop ''excitation'' id2pos (states imp1) (transitions imp1)
               else Inr ()) of
           Inl e \<Rightarrow> Inl e
         | Inr u \<Rightarrow>
             (case (if truthy (ionization imp1)
                    then inverse_data_loop ''ionization'' id2pos (states imp1) (transitions imp1)
                    else Inr ()) of
                Inl e \<Rightarrow> Inl e
              | Inr v \<Rightarrow> state_and_transition_checks imp1 Egrid trans_Egrid))"

section \<open>Density Initializer\<close>

definition np_zeros :: "nat \<Rightarrow> int \<Rightarrow> error + real list list" where
  "np_zeros rows cols =
     (if cols < 0 then Inl NegativeDimError else Inr (replicate rows (replicate (nat cols) 0)))"

text \<open>The two allocations at the head of \<^verbatim>\<open>init_dens\<close>.\<close>

definition alloc_dens :: "impurity \<Rightarrow> nat \<Rightarrow> error + impurity" where
  "alloc_dens imp n =
     (case (if truthy (kinetic_electrons imp) then
              (case np_zeros n (tot_states imp) of
                 Inl e \<Rightarrow> Inl e
               | Inr d \<Rightarrow> Inr (imp\<lparr>dens := d\<rparr>))
            else Inr imp) of
        Inl e \<Rightarrow> Inl e
      | Inr imp1 \<Rightarrow>
          (if truthy (maxwellian_electrons imp1) then
             (case np_zeros n (tot_states imp1) of
                Inl e \<Rightarrow> Inl e
              | Inr d \<Rightarrow> Inr (imp1\<lparr>dens_Max := d\<rparr>))
           else Inr imp1))"

text \<open>
  The branch without Saha-Boltzmann initialization:
  \<^verbatim>\<open>self.dens[:, 0] = self.frac_imp_dens * ne\<close> or \<^verbatim>\<open>self.dens[:, 0] = 1.0\<close>.
  The product of the tuple \<^verbatim>\<open>(frac_imp_dens,)\<close> with the array \<^verbatim>\<open>ne\<close> is the array of the
  products.  Column 0 exists only when the array has a column.
\<close>

definition set_col0 :: "int \<Rightarrow> real list list \<Rightarrow> real list \<Rightarrow> error + real list list" where
  "set_col0 ncols d vals =
     (if ncols < 1 then Inl IndexError else Inr (map2 (\<lambda>row v. row[0 := v]) d vals))"

definition fixed_init :: "impurity \<Rightarrow> real list \<Rightarrow> error + impurity" where
  "fixed_init imp ne =
     (let vals =
        (if truthy (fixed_fraction_init imp)
         then (case frac_imp_dens imp of Tuple1 f \<Rightarrow> map (\<lambda>n. f * n) ne)
         else replicate (length ne) 1)
      in case (if truthy (kinetic_electrons imp) then
                 (case set_col0 (tot_states imp) (dens imp) vals of
                    Inl e \<Rightarrow> Inl e
                  | Inr d \<Rightarrow> Inr (imp\<lparr>dens := d\<rparr>))
               else Inr imp) of
           Inl e \<Rightarrow> Inl e
         | Inr imp1 \<Rightarrow>
             (if truthy (maxwellian_electrons imp1) then
                (case set_col0 (tot_states imp1) (dens_Max imp1) vals of
                   Inl e \<Rightarrow> Inl e
                 | Inr d \<Rightarrow> Inr (imp1\<lparr>dens_Max := d\<rparr>))
              else Inr imp1))"

text \<open>
  The Saha-Boltzmann branch calls \<^verbatim>\<open>core.saha_dist\<close>, \<^verbatim>\<open>core.boltzmann_dist\<close> and
  \<^verbatim>\<open>post_processing.gather_states\<close>, which are not part of \<^verbatim>\<open>impurity.py\<close>; they are
  parameters.  A division by zero gives \<^verbatim>\<open>inf\<close> or \<^verbatim>\<open>nan\<close> in numpy and \<open>0\<close> here.
\<close>

type_synonym saha_fn = "real \<Rightarrow> real \<Rightarrow> real \<Rightarrow> impurity \<Rightarrow> real list"
type_synonym boltzmann_fn = "real \<Rightarrow> real list \<Rightarrow> real list \<Rightarrow> real list"
type_synonym gather_fn = "state list \<Rightarrow> nat \<Rightarrow> state list"

text \<open>Assigning a vector to a row of \<open>n\<close> columns: a vector of length one is broadcast.\<close>

definition assign_row :: "nat \<Rightarrow> real list \<Rightarrow> error + real list" where
  "assign_row n v =
     (if length v = n then Inr v
      else if length v = 1 then Inr (replicate n (hd v))
      else Inl BroadcastError)"

fun saha_rows :: "saha_fn \<Rightarrow> impurity \<Rightarrow> real list \<Rightarrow> real list \<Rightarrow> nat list \<Rightarrow> error + real list list" where
  "saha_rows saha_dist imp ne Te [] = Inr []"
| "saha_rows saha_dist imp ne Te (i # js) =
     (case np_get Te (int i) of
        Inl e \<Rightarrow> Inl e
      | Inr T \<Rightarrow>
          (case assign_row (num_Z imp)
                  (map (\<lambda>x. x / n_norm imp)
                     (saha_dist (T * T_norm imp) (ne ! i * n_norm imp) (n_norm imp) imp)) of
             Inl e \<Rightarrow> Inl e
           | Inr row \<Rightarrow>
               (case saha_rows saha_dist imp ne Te js of
                  Inl e \<Rightarrow> Inl e
                | Inr rows \<Rightarrow> Inr (row # rows))))"

text \<open>\<^verbatim>\<open>row[locs] = vals\<close> with a list of column positions.\<close>

definition put_cols :: "real list \<Rightarrow> nat list \<Rightarrow> real list \<Rightarrow> error + real list" where
  "put_cols row locs vals =
     (if list_ex (\<lambda>l. length row \<le> l) locs then Inl IndexError
      else if length vals = length locs
        then Inr (fold (\<lambda>lv r. r[fst lv := snd lv]) (zip locs vals) row)
      else if length vals = 1
        then Inr (fold (\<lambda>l r. r[l := hd vals]) locs row)
      else Inl BroadcastError)"

text \<open>
  The two statements applied to one density array for sample \<open>i\<close>:
  \<^verbatim>\<open>d[i, locs] = rel_dens * Z_dens_loc / np.sum(rel_dens)\<close> and, under
  \<^verbatim>\<open>if self.fixed_fraction_init\<close>, \<^verbatim>\<open>d[i, locs] *= self.frac_imp_dens * ne[i]\<close>.
  In the second statement the product \<^verbatim>\<open>self.frac_imp_dens * ne[i]\<close> is evaluated first.  Its
  left operand is the tuple \<^verbatim>\<open>(frac_imp_dens,)\<close> and its right operand the numpy float
  \<^verbatim>\<open>ne[i]\<close>; a tuple can be repeated by an integer only, so the product raises \<^verbatim>\<open>TypeError\<close>
  and the array keeps the row written by the first statement.
\<close>

definition put_sample :: "impurity \<Rightarrow> real list list \<Rightarrow> nat \<Rightarrow> nat list \<Rightarrow> real list \<Rightarrow> real \<Rightarrow> real
    \<Rightarrow> error + real list list" where
  "put_sample imp d i locs rel_dens Z_dens_loc ne_i =
     (case put_cols (d ! i) locs (map (\<lambda>r. r * Z_dens_loc / sum_list rel_dens) rel_dens) of
        Inl e \<Rightarrow> Inl e
      | Inr row \<Rightarrow>
          (if truthy (fixed_fraction_init imp) then Inl TypeError
           else Inr (d[i := row])))"

fun sample_loop :: "boltzmann_fn \<Rightarrow> real list list \<Rightarrow> nat \<Rightarrow> state list \<Rightarrow> real list \<Rightarrow> real list
    \<Rightarrow> impurity \<Rightarrow> nat list \<Rightarrow> error + impurity" where
  "sample_loop boltzmann_dist Z_dens z Z_states ne Te imp [] = Inr imp"
| "sample_loop boltzmann_dist Z_dens z Z_states ne Te imp (i # js) =
     (let energies = map energy Z_states;
          stat_weights = map stat_weight Z_states;
          locs = map pos Z_states;
          Z_dens_loc = Z_dens ! i ! z;
          rel_dens = boltzmann_dist (Te ! i * T_norm imp) energies stat_weights
      in case (if truthy (kinetic_electrons imp) then
                 (case put_sample imp (dens imp) i locs rel_dens Z_dens_loc (ne ! i) of
                    Inl e \<Rightarrow> Inl e
                  | Inr d \<Rightarrow> Inr (imp\<lparr>dens := d\<rparr>))
               else Inr imp) of
           Inl e \<Rightarrow> Inl e
         | Inr imp1 \<Rightarrow>
             (case (if truthy (maxwellian_electrons imp1) then
                      (case put_sample imp1 (dens_Max imp1) i locs rel_dens Z_dens_loc (ne ! i) of
                         Inl e \<Rightarrow> Inl e
                       | Inr d \<Rightarrow> Inr (imp1\<lparr>dens_Max := d\<rparr>))
                    else Inr imp1) of
                Inl e \<Rightarrow> Inl e
              | Inr imp2 \<Rightarrow> sample_loop boltzmann_dist Z_dens z Z_states ne Te imp2 js))"

fun stage_loop :: "boltzmann_fn \<Rightarrow> gather_fn \<Rightarrow> real list list \<Rightarrow> real list \<Rightarrow> real list
    \<Rightarrow> impurity \<Rightarrow> nat list \<Rightarrow> error + impurity" where
  "stage_loop boltzmann_dist gather_states Z_dens ne Te imp [] = Inr imp"
| "stage_loop boltzmann_dist gather_states Z_dens ne Te imp (z # zs) =
     (case sample_loop boltzmann_dist Z_dens z (gather_states (states imp) z) ne Te imp
             [0..<length ne] of
        Inl e \<Rightarrow> Inl e
      | Inr imp1 \<Rightarrow> stage_loop boltzmann_dist gather_states Z_dens ne Te imp1 zs)"

definition equilibrium_init :: "saha_fn \<Rightarrow> boltzmann_fn \<Rightarrow> gather_fn \<Rightarrow> impurity \<Rightarrow> real list \<Rightarrow> real list
    \<Rightarrow> error + impurity" where
  "equilibrium_init saha_dist boltzmann_dist gather_states imp ne Te =
     (let imp1 = set_state_positions imp
      in case saha_rows saha_dist imp1 ne Te [0..<length ne] of
           Inl e \<Rightarrow> Inl e
         | Inr Z_dens \<Rightarrow>
             stage_loop boltzmann_dist gather_states Z_dens ne Te imp1 [0..<num_Z imp1])"

definition init_dens :: "saha_fn \<Rightarrow> boltzmann_fn \<Rightarrow> gather_fn \<Rightarrow> impurity \<Rightarrow> real list \<Rightarrow> real list
    \<Rightarrow> error + impurity" where
  "init_dens saha_dist boltzmann_dist gather_states imp ne Te =
     (case alloc_dens imp (length ne) of
        Inl e \<Rightarrow> Inl e
      | Inr imp1 \<Rightarrow>
          (if truthy (saha_boltzmann_init imp1)
           then equilibrium_init saha_dist boltzmann_dist gather_states imp1 ne Te
           else fixed_init imp1 ne))"

section \<open>Notions used in the statements\<close>

text \<open>\<open>precedes xs a b\<close>: some occurrence of \<open>a\<close> in \<open>xs\<close> comes before some occurrence of \<open>b\<close>.\<close>

fun precedes :: "'a list \<Rightarrow> 'a \<Rightarrow> 'a \<Rightarrow> bool" where
  "precedes [] a b = False"
| "precedes (x # xs) a b = ((x = a \<and> b \<in> set xs) \<or> precedes xs a b)"

text \<open>A state and a transition with the cached positions put aside.\<close>

definition unpos :: "state \<Rightarrow> state" where
  "unpos s = s\<lparr>pos := 0\<rparr>"

definition untpos :: "transition \<Rightarrow> transition" where
  "untpos t = t\<lparr>from_pos := 0, to_pos := 0\<rparr>"

text \<open>A state is touched by a transition list when its id is an endpoint of a transition.\<close>

definition touched :: "transition list \<Rightarrow> state \<Rightarrow> bool" where
  "touched ts s = (state_id s \<in> from_id ` set ts \<or> state_id s \<in> to_id ` set ts)"

text \<open>
  The ground state of a stage in the words of the specification: \<open>stage_min sts z\<close> is the
  least energy among the states of stage \<open>z\<close>, and \<open>first_min sts i\<close> says that the state at
  index \<open>i\<close> has the least energy of its stage and that no state of its stage before it in
  the list has the same energy.  \<open>unmarked\<close> puts aside the three attributes that
  \<^verbatim>\<open>init_ionization_energies\<close> assigns.
\<close>

definition stage_min :: "state list \<Rightarrow> int \<Rightarrow> real" where
  "stage_min sts z = Min (set (map energy (filter (\<lambda>s. Z s = z) sts)))"

definition first_min :: "state list \<Rightarrow> nat \<Rightarrow> bool" where
  "first_min sts i =
     (i < length sts \<and> energy (sts ! i) = stage_min sts (Z (sts ! i)) \<and>
      list_all (\<lambda>s. energy s \<noteq> energy (sts ! i)) (filter (\<lambda>s. Z s = Z (sts ! i)) (take i sts)))"

definition unmarked :: "state \<Rightarrow> state" where
  "unmarked s = s\<lparr>ground := False, iz_energy := 0, energy_from_gs := 0\<rparr>"

section \<open>The constructor\<close>

text \<open>
  The arguments of \<^verbatim>\<open>Impurity.__init__\<close> that the modelled methods use, under the names of the
  parameters with \<open>_arg\<close> appended.  The velocity grid is passed on to the transition classes
  only and is left out.
\<close>

record init_args =
  name_arg :: string
  state_ids_arg :: "int list option"
  kinetic_electrons_arg :: bool
  maxwellian_electrons_arg :: bool
  saha_boltzmann_init_arg :: bool
  fixed_fraction_init_arg :: bool
  frac_imp_dens_arg :: real
  ionization_arg :: bool
  autoionization_arg :: bool
  emission_arg :: bool
  radiative_recombination_arg :: bool
  excitation_arg :: bool
  T_norm_arg :: real
  n_norm_arg :: real
  Egrid_arg :: "real list"
  ne_arg :: "real list"
  Te_arg :: "real list"

text \<open>\<^verbatim>\<open>get_element_data\<close>: the nuclear charge is read from a dictionary keyed by the name.\<close>

definition nuc_chg_dict :: "string \<rightharpoonup> nat" where
  "nuc_chg_dict =
     map_of [(''H'', 1), (''He'', 2), (''Li'', 3), (''Be'', 4), (''B'', 5), (''C'', 6),
             (''N'', 7), (''O'', 8), (''Ne'', 10), (''Ar'', 18), (''W'', 74)]"

text \<open>
  \<^verbatim>\<open>__init__\<close>: the settings are saved, those assigned with a trailing comma as tuples of
  length one and \<^verbatim>\<open>T_norm\<close> and \<^verbatim>\<open>n_norm\<close> as they are; then the element data, the states,
  the transitions and the densities are initialised and the two indexing passes are run.
  The contents of the levels file and of the transitions file are parameters, as are
  \<^verbatim>\<open>State.equals\<close> and the three functions of the density initialisation.
\<close>

definition Impurity_init :: "(state \<Rightarrow> state \<Rightarrow> bool) \<Rightarrow> saha_fn \<Rightarrow> boltzmann_fn \<Rightarrow> gather_fn
    \<Rightarrow> init_args \<Rightarrow> level list \<Rightarrow> real list \<times> raw_trans list \<Rightarrow> error + impurity" where
  "Impurity_init equals saha_dist boltzmann_dist gather_states a levels_dict trans_dict =
     (case nuc_chg_dict (name_arg a) of
        None \<Rightarrow> Inl (NameKeyError (name_arg a))
      | Some nuc_chg \<Rightarrow>
          (let imp0 =
             \<lparr>state_ids = Tuple1 (state_ids_arg a),
              kinetic_electrons = Tuple1 (kinetic_electrons_arg a),
              maxwellian_electrons = Tuple1 (maxwellian_electrons_arg a),
              saha_boltzmann_init = Tuple1 (saha_boltzmann_init_arg a),
              fixed_fraction_init = Tuple1 (fixed_fraction_init_arg a),
              frac_imp_dens = Tuple1 (frac_imp_dens_arg a),
              ionization = Tuple1 (ionization_arg a),
              autoionization = Tuple1 (autoionization_arg a),
              emission = Tuple1 (emission_arg a),
              radiative_recombination = Tuple1 (radiative_recombination_arg a),
              excitation = Tuple1 (excitation_arg a),
              T_norm = T_norm_arg a, n_norm = n_norm_arg a,
              num_Z = nuc_chg + 1,
              states = [], tot_states = 0, transitions = [], dens = [], dens_Max = [],
              num_P_states = 0, num_Q_states = 0\<rparr>
           in case init_states equals imp0 levels_dict of
                Inl e \<Rightarrow> Inl e
              | Inr imp1 \<Rightarrow>
                  (case init_transitions imp1 trans_dict (Egrid_arg a) of
                     Inl e \<Rightarrow> Inl e
                   | Inr imp2 \<Rightarrow>
                       (case init_dens saha_dist boltzmann_dist gather_states imp2
                               (ne_arg a) (Te_arg a) of
                          Inl e \<Rightarrow> Inl e
                        | Inr imp3 \<Rightarrow> set_transition_positions (set_state_positions imp3)))))"

section \<open>Concrete inputs\<close>

definition example_impurity :: impurity where
  "example_impurity =
     \<lparr>state_ids = Tuple1 None, kinetic_electrons = Tuple1 True,
      maxwellian_electrons = Tuple1 False, saha_boltzmann_init = Tuple1 False,
      fixed_fraction_init = Tuple1 True, frac_imp_dens = Tuple1 (1 / 100),
      ionization = Tuple1 True, autoionization = Tuple1 False, emission = Tuple1 True,
      radiative_recombination = Tuple1 True, excitation = Tuple1 True,
      T_norm = 1, n_norm = 1, num_Z = 2, states = [], tot_states = 0, transitions = [],
      dens = [], dens_Max = [], num_P_states = 0, num_Q_states = 0\<rparr>"

definition example_state :: "int \<Rightarrow> int \<Rightarrow> real \<Rightarrow> state" where
  "example_state i z e =
     \<lparr>state_id = i, Z = z, energy = e, stat_weight = 1, ground = False, iz_energy = 0,
      energy_from_gs = 0, pos = 0\<rparr>"

definition example_trans :: "string \<Rightarrow> int \<Rightarrow> int \<Rightarrow> transition" where
  "example_trans ty a b = \<lparr>trans_type = ty, from_id = a, to_id = b, from_pos = 0, to_pos = 0\<rparr>"


definition example_unordered :: impurity where
  "example_unordered =
     example_impurity
       \<lparr>states := [example_state 3 0 2, (example_state 4 0 0)\<lparr>ground := True\<rparr>,
                   (example_state 7 1 5)\<lparr>ground := True\<rparr>],
        tot_states := 3,
        transitions := [example_trans ''excitation'' 4 3, example_trans ''ionization'' 4 7]\<rparr>"

definition example_reordered :: impurity where
  "example_reordered =
     example_impurity
       \<lparr>states := [(example_state 4 0 0)\<lparr>ground := True\<rparr>,
                   (example_state 7 1 5)\<lparr>ground := True, pos := 1\<rparr>,
                   (example_state 3 0 2)\<lparr>pos := 2\<rparr>],
        tot_states := 3,
        transitions := [(example_trans ''excitation'' 4 3)\<lparr>to_pos := 2\<rparr>,
                        (example_trans ''ionization'' 4 7)\<lparr>to_pos := 1\<rparr>],
        num_P_states := 2, num_Q_states := 1\<rparr>"

definition example_unchecked :: impurity where
  "example_unchecked =
     example_impurity
       \<lparr>states := [example_state 4 0 0, example_state 9 0 3, example_state 7 1 5],
        tot_states := 3,
        transitions := [example_trans ''ionization'' 4 7, example_trans ''excitation'' 4 8,
                        example_trans ''radiative_recombination'' 7 4]\<rparr>"

definition example_consistent :: impurity where
  "example_consistent =
     example_impurity
       \<lparr>states := [example_state 4 0 0, example_state 9 0 3, example_state 7 1 5],
        tot_states := 3,
        transitions := [example_trans ''ionization'' 4 7]\<rparr>"

definition example_consistent_checked :: impurity where
  "example_consistent_checked =
     example_impurity
       \<lparr>states := [example_state 4 0 0, example_state 7 1 5],
        tot_states := 2,
        transitions := [example_trans ''ionization'' 4 7]\<rparr>"

definition example_dangling :: impurity where
  "example_dangling =
     example_impurity
       \<lparr>states := [example_state 0 0 0, example_state 1 1 5],
        tot_states := 2,
        transitions := [example_trans ''excitation'' 0 5, example_trans ''excitation'' 1 6]\<rparr>"

definition example_dangling_checked :: impurity where
  "example_dangling_checked =
     example_impurity
       \<lparr>states := [example_state 0 0 0, example_state 1 1 5],
        tot_states := 2,
        transitions := []\<rparr>"

definition example_levels :: impurity where
  "example_levels =
     example_impurity
       \<lparr>states := [example_state 0 0 2, example_state 1 0 1, example_state 2 0 1,
                   example_state 3 1 5],
        tot_states := 4\<rparr>"

definition example_levels_marked :: impurity where
  "example_levels_marked =
     example_impurity
       \<lparr>states := [(example_state 0 0 2)\<lparr>iz_energy := 3, energy_from_gs := 1\<rparr>,
                   (example_state 1 0 1)\<lparr>ground := True, iz_energy := 4\<rparr>,
                   (example_state 2 0 1)\<lparr>iz_energy := 4\<rparr>,
                   (example_state 3 1 5)\<lparr>ground := True\<rparr>],
        tot_states := 4\<rparr>"

text \<open>A stand-in for \<^verbatim>\<open>State.equals\<close> that tells the states of a list apart by their ids.\<close>

definition same_id :: "state \<Rightarrow> state \<Rightarrow> bool" where
  "same_id s s' = (state_id s = state_id s')"

definition example_catalog :: "level list" where
  "example_catalog =
     [\<lparr>level_Z = 0, level_energy = 0, level_stat_weight = 1\<rparr>,
      \<lparr>level_Z = 1, level_energy = 5, level_stat_weight = 1\<rparr>]"

definition example_entry :: raw_trans where
  "example_entry = \<lparr>raw_type = ''ionization'', raw_from_id = 0, raw_to_id = 1\<rparr>"

definition example_two_states :: impurity where
  "example_two_states =
     example_impurity
       \<lparr>states := [example_state 0 0 0, example_state 1 1 5], tot_states := 2\<rparr>"

definition example_single_stage :: impurity where
  "example_single_stage =
     example_impurity
       \<lparr>states := [example_state 0 0 2, example_state 1 0 1], tot_states := 2\<rparr>"

definition example_args :: init_args where
  "example_args =
     \<lparr>name_arg = ''H'', state_ids_arg = None, kinetic_electrons_arg = True,
      maxwellian_electrons_arg = False, saha_boltzmann_init_arg = False,
      fixed_fraction_init_arg = True, frac_imp_dens_arg = 1 / 100,
      ionization_arg = True, autoionization_arg = False, emission_arg = True,
      radiative_recombination_arg = True, excitation_arg = True,
      T_norm_arg = 1, n_norm_arg = 1, Egrid_arg = [1, 2],
      ne_arg = [10 ^ 19, 2 * 10 ^ 19], Te_arg = [1, 1]\<rparr>"

section \<open>The Position Indexer is correct\<close>

lemma set_pos_from_length [simp]: "length (set_pos_from i ss) = length ss"
  by (induction ss arbitrary: i) auto



lemma map_state_id_set_pos_from [simp]: "map state_id (set_pos_from i ss) = map state_id ss"
  by (induction ss arbitrary: i) auto

lemma build_id2pos_notin:
  "k \<notin> state_id ` set ss \<Longrightarrow> build_id2pos i ss m k = m k"
  by (induction ss arbitrary: i m) auto


lemma build_id2pos_in:
  "k \<in> state_id ` set ss \<Longrightarrow>
   \<exists>p. build_id2pos i ss m k = Some p \<and> i \<le> p \<and> p < i + length ss \<and> state_id (ss ! (p - i)) = k"
proof (induction ss arbitrary: i m)
  case Nil
  then show ?case by simp
next
  case (Cons s ss)
  show ?case
  proof (cases "k \<in> state_id ` set ss")
    case True
    from Cons.IH[OF True, of "Suc i" "m(state_id s \<mapsto> i)"]
    obtain p where p: "build_id2pos (Suc i) ss (m(state_id s \<mapsto> i)) k = Some p"
      "Suc i \<le> p" "p < Suc i + length ss" "state_id (ss ! (p - Suc i)) = k" by blast
    then have "(s # ss) ! (p - i) = ss ! (p - Suc i)"
      by (metis Suc_diff_le diff_Suc_Suc nth_Cons_Suc)
    with p show ?thesis by auto
  next
    case False
    with Cons.prems have k: "k = state_id s" by auto
    with False show ?thesis by (simp add: build_id2pos_notin)
  qed
qed

lemma build_id2pos_dom:
  "dom (build_id2pos i ss m) = dom m \<union> state_id ` set ss"
  by (induction ss arbitrary: i m) auto

lemma set_trans_pos_loop_ok:
  "list_all (\<lambda>t. from_id t \<in> dom m \<and> to_id t \<in> dom m) ts \<Longrightarrow>
   set_trans_pos_loop m ts =
     Inr (map (\<lambda>t. t\<lparr>from_pos := the (m (from_id t)), to_pos := the (m (to_id t))\<rparr>) ts)"
  by (induction ts) (auto split: option.splits)

lemma set_trans_pos_loop_Inr:
  "set_trans_pos_loop m ts = Inr ts' \<Longrightarrow>
   list_all (\<lambda>t. from_id t \<in> dom m \<and> to_id t \<in> dom m) ts"
  by (induction ts arbitrary: ts') (auto split: option.splits sum.splits)


lemma set_pos_from_ids [simp]: "state_id ` set (set_pos_from i ss) = state_id ` set ss"
  using map_state_id_set_pos_from[of i ss] by (metis set_map)



section \<open>Reordering into primary and secondary states\<close>

lemma set_pos_from_append:
  "set_pos_from i (xs @ ys) = set_pos_from i xs @ set_pos_from (i + length xs) ys"
  by (induction xs arbitrary: i) auto

lemma set_pos_from_idem: "set_pos_from i (set_pos_from i ss) = set_pos_from i ss"
  by (induction ss arbitrary: i) auto

lemma map_unpos_set_pos_from [simp]: "map unpos (set_pos_from i ss) = map unpos ss"
  by (induction ss arbitrary: i) (auto simp: unpos_def)

lemma map_ground_set_pos_from [simp]: "map ground (set_pos_from i ss) = map ground ss"
  by (induction ss arbitrary: i) auto

lemma filter_ground_set_pos_from_all:
  "list_all ground ss \<Longrightarrow> filter ground (set_pos_from i ss) = set_pos_from i ss"
  by (induction ss arbitrary: i) auto

lemma filter_ground_set_pos_from_none:
  "list_all (\<lambda>s. \<not> ground s) ss \<Longrightarrow> filter ground (set_pos_from i ss) = []"
  by (induction ss arbitrary: i) auto

lemma filter_not_ground_set_pos_from_all:
  "list_all (\<lambda>s. \<not> ground s) ss \<Longrightarrow> filter (\<lambda>s. \<not> ground s) (set_pos_from i ss) = set_pos_from i ss"
  by (induction ss arbitrary: i) auto

lemma filter_not_ground_set_pos_from_none:
  "list_all ground ss \<Longrightarrow> filter (\<lambda>s. \<not> ground s) (set_pos_from i ss) = []"
  by (induction ss arbitrary: i) auto

lemma set_trans_pos_loop_idem:
  "set_trans_pos_loop m ts = Inr ts' \<Longrightarrow> set_trans_pos_loop m ts' = Inr ts'"
proof (induction ts arbitrary: ts')
  case Nil
  then show ?case by simp
next
  case (Cons t ts)
  then show ?case by (auto split: option.splits sum.splits)
qed

lemma map_untpos_set_trans_pos_loop:
  "set_trans_pos_loop m ts = Inr ts' \<Longrightarrow> map untpos ts' = map untpos ts"
  by (induction ts arbitrary: ts') (auto simp: untpos_def split: option.splits sum.splits)

text \<open>The state list after the repartition and the first indexing pass.\<close>

lemma reorder_PQ_states_ground_unfold:
  "reorder_PQ_states imp ''ground'' =
     (case set_trans_pos_loop
             (build_id2pos 0 (set_pos_from 0 (filter ground (states imp) @ filter (\<lambda>s. \<not> ground s) (states imp))) Map.empty)
             (transitions imp) of
        Inl e \<Rightarrow> Inl e
      | Inr ts' \<Rightarrow>
          Inr (imp\<lparr>num_P_states := length (filter ground (states imp)),
                   num_Q_states := length (filter (\<lambda>s. \<not> ground s) (states imp)),
                   states := set_pos_from 0 (filter ground (states imp) @ filter (\<lambda>s. \<not> ground s) (states imp)),
                   transitions := ts'\<rparr>))"
  by (simp add: reorder_PQ_states_def set_transition_positions_def set_state_positions_def Let_def
      split: sum.splits)

lemma repartition_fixed:
  fixes ss :: "state list"
  defines "rs \<equiv> set_pos_from 0 (filter ground ss @ filter (\<lambda>s. \<not> ground s) ss)"
  shows "filter ground rs = take (length (filter ground ss)) rs"
    and "filter (\<lambda>s. \<not> ground s) rs = drop (length (filter ground ss)) rs"
    and "set_pos_from 0 (filter ground rs @ filter (\<lambda>s. \<not> ground s) rs) = rs"
    and "length (filter ground rs) = length (filter ground ss)"
    and "length (filter (\<lambda>s. \<not> ground s) rs) = length (filter (\<lambda>s. \<not> ground s) ss)"
proof -
  let ?G = "filter ground ss" and ?O = "filter (\<lambda>s. \<not> ground s) ss"
  have G: "list_all ground ?G" and O: "list_all (\<lambda>s. \<not> ground s) ?O"
    by (simp_all add: list_all_iff)
  have rs: "rs = set_pos_from 0 ?G @ set_pos_from (length ?G) ?O"
    by (simp add: rs_def set_pos_from_append)
  have fg: "filter ground rs = set_pos_from 0 ?G"
    by (simp add: rs filter_ground_set_pos_from_all[OF G] filter_ground_set_pos_from_none[OF O])
  have fo: "filter (\<lambda>s. \<not> ground s) rs = set_pos_from (length ?G) ?O"
    by (simp add: rs filter_not_ground_set_pos_from_all[OF O] filter_not_ground_set_pos_from_none[OF G])
  show "filter ground rs = take (length ?G) rs" unfolding fg by (simp add: rs)
  show "filter (\<lambda>s. \<not> ground s) rs = drop (length ?G) rs" unfolding fo by (simp add: rs)
  have "filter ground rs @ filter (\<lambda>s. \<not> ground s) rs = rs" unfolding fg fo by (simp add: rs)
  then show "set_pos_from 0 (filter ground rs @ filter (\<lambda>s. \<not> ground s) rs) = rs"
    by (simp add: rs_def set_pos_from_idem)
  show "length (filter ground rs) = length ?G" by (simp add: fg)
  show "length (filter (\<lambda>s. \<not> ground s) rs) = length ?O" by (simp add: fo)
qed

text \<open>
  Claim C8.  Let every transition name two states of the list and let the evolved-state
  count be the length of the state list.  Then \<^verbatim>\<open>reorder_PQ_states\<close> with
  \<^verbatim>\<open>P_states="ground"\<close> returns; the first \<open>num_P_states\<close> entries of the new state list are
  exactly its ground states, and they are the ground states of the old list in their old
  order; the remaining entries are the other states in their old order; the two counts add
  up to the old evolved-state count; and, the cached positions put aside, the states are
  the same multiset and the transitions the same list as before.
\<close>

theorem reorder_PQ_states_ground:
  assumes ends: "list_all (\<lambda>t. from_id t \<in> state_id ` set (states imp) \<and>
                          to_id t \<in> state_id ` set (states imp)) (transitions imp)"
      and tot: "tot_states imp = int (length (states imp))"
  shows "\<exists>imp'. reorder_PQ_states imp ''ground'' = Inr imp' \<and>
           filter ground (states imp') = take (num_P_states imp') (states imp') \<and>
           filter (\<lambda>s. \<not> ground s) (states imp') = drop (num_P_states imp') (states imp') \<and>
           map unpos (take (num_P_states imp') (states imp')) = map unpos (filter ground (states imp)) \<and>
           map unpos (drop (num_P_states imp') (states imp')) =
             map unpos (filter (\<lambda>s. \<not> ground s) (states imp)) \<and>
           int (num_P_states imp' + num_Q_states imp') = tot_states imp \<and>
           mset (map unpos (states imp')) = mset (map unpos (states imp)) \<and>
           map untpos (transitions imp') = map untpos (transitions imp)"
proof -
  let ?G = "filter ground (states imp)" and ?O = "filter (\<lambda>s. \<not> ground s) (states imp)"
  define rs where "rs = set_pos_from 0 (?G @ ?O)"
  define m where "m = build_id2pos 0 rs Map.empty"
  define ts' where "ts' = map (\<lambda>t. t\<lparr>from_pos := the (m (from_id t)), to_pos := the (m (to_id t))\<rparr>)
                          (transitions imp)"
  define imp' where "imp' = imp\<lparr>num_P_states := length ?G, num_Q_states := length ?O,
                   states := rs, transitions := ts'\<rparr>"
  have "state_id ` set rs = state_id ` set (states imp)"
    by (auto simp: rs_def)
  then have "dom m = state_id ` set (states imp)"
    by (simp add: m_def build_id2pos_dom)
  with ends have "list_all (\<lambda>t. from_id t \<in> dom m \<and> to_id t \<in> dom m) (transitions imp)"
    by simp
  from set_trans_pos_loop_ok[OF this]
  have loop: "set_trans_pos_loop m (transitions imp) = Inr ts'" by (simp add: ts'_def)
  have run: "reorder_PQ_states imp ''ground'' = Inr imp'"
    by (simp add: reorder_PQ_states_ground_unfold loop[unfolded m_def rs_def] imp'_def rs_def)
  have f: "states imp' = rs" "transitions imp' = ts'" "num_P_states imp' = length ?G"
    "num_Q_states imp' = length ?O"
    by (simp_all add: imp'_def)
  note fx = repartition_fixed[of "states imp", folded rs_def]
  have rs: "rs = set_pos_from 0 ?G @ set_pos_from (length ?G) ?O"
    by (simp add: rs_def set_pos_from_append)
  have c1: "filter ground (states imp') = take (num_P_states imp') (states imp')"
    by (simp add: f fx(1))
  have c2: "filter (\<lambda>s. \<not> ground s) (states imp') = drop (num_P_states imp') (states imp')"
    by (simp add: f fx(2))
  have c3: "map unpos (take (num_P_states imp') (states imp')) = map unpos ?G"
    by (simp add: f rs)
  have c4: "map unpos (drop (num_P_states imp') (states imp')) = map unpos ?O"
    by (simp add: f rs)
  have "length ?G + length ?O = length (states imp)"
    using sum_length_filter_compl[of ground "states imp"] by simp
  then have c5: "int (num_P_states imp' + num_Q_states imp') = tot_states imp"
    by (simp add: f tot)
  have "mset (?G @ ?O) = mset (states imp)" by simp
  then have "mset (map unpos (?G @ ?O)) = mset (map unpos (states imp))"
    by (metis mset_map)
  then have c6: "mset (map unpos (states imp')) = mset (map unpos (states imp))"
    by (simp add: f rs_def)
  have c7: "map untpos (transitions imp') = map untpos (transitions imp)"
    using map_untpos_set_trans_pos_loop[OF loop] by (simp add: f)
  from run c1 c2 c3 c4 c5 c6 c7 show ?thesis by blast
qed

text \<open>The statement at three states, the first of which is not a ground state.\<close>

theorem reorder_PQ_states_ground_witness:
  "list_all (\<lambda>t. from_id t \<in> state_id ` set (states example_unordered) \<and>
                  to_id t \<in> state_id ` set (states example_unordered)) (transitions example_unordered) \<and>
   tot_states example_unordered = int (length (states example_unordered)) \<and>
   (\<exists>imp'. reorder_PQ_states example_unordered ''ground'' = Inr imp' \<and>
           filter ground (states imp') = take (num_P_states imp') (states imp') \<and>
           filter (\<lambda>s. \<not> ground s) (states imp') = drop (num_P_states imp') (states imp') \<and>
           map unpos (take (num_P_states imp') (states imp')) =
             map unpos (filter ground (states example_unordered)) \<and>
           map unpos (drop (num_P_states imp') (states imp')) =
             map unpos (filter (\<lambda>s. \<not> ground s) (states example_unordered)) \<and>
           int (num_P_states imp' + num_Q_states imp') = tot_states example_unordered \<and>
           mset (map unpos (states imp')) = mset (map unpos (states example_unordered)) \<and>
           map untpos (transitions imp') = map untpos (transitions example_unordered))"
proof -
  have h1: "list_all (\<lambda>t. from_id t \<in> state_id ` set (states example_unordered) \<and>
                  to_id t \<in> state_id ` set (states example_unordered)) (transitions example_unordered)"
    by (simp add: example_unordered_def example_impurity_def example_state_def example_trans_def)
  have h2: "tot_states example_unordered = int (length (states example_unordered))"
    by (simp add: example_unordered_def example_impurity_def)
  from reorder_PQ_states_ground[OF h1 h2] h1 h2 show ?thesis by blast
qed

text \<open>
  Claim C10.  \<^verbatim>\<open>reorder_PQ_states\<close> with \<^verbatim>\<open>P_states="ground"\<close> is idempotent: applied to the
  model returned by a first application, it returns that model unchanged, so the state
  list, both counts, every \<open>pos\<close>, \<open>from_pos\<close> and \<open>to_pos\<close> stay as they are.
\<close>

theorem reorder_PQ_states_idempotent:
  assumes "reorder_PQ_states imp ''ground'' = Inr imp'"
  shows "reorder_PQ_states imp' ''ground'' = Inr imp'"
proof -
  define rs where "rs = set_pos_from 0 (filter ground (states imp) @ filter (\<lambda>s. \<not> ground s) (states imp))"
  define m where "m = build_id2pos 0 rs Map.empty"
  from assms obtain ts' where loop: "set_trans_pos_loop m (transitions imp) = Inr ts'"
    and imp': "imp' = imp\<lparr>num_P_states := length (filter ground (states imp)),
                   num_Q_states := length (filter (\<lambda>s. \<not> ground s) (states imp)),
                   states := rs, transitions := ts'\<rparr>"
    by (auto simp: reorder_PQ_states_ground_unfold rs_def m_def split: sum.splits)
  have st: "states imp' = rs" and tr: "transitions imp' = ts'" by (simp_all add: imp')
  note fx = repartition_fixed[of "states imp", folded rs_def]
  have loop': "set_trans_pos_loop m ts' = Inr ts'"
    by (rule set_trans_pos_loop_idem[OF loop])
  show ?thesis
    by (simp add: reorder_PQ_states_ground_unfold[of imp'] st tr fx(3) fx(4) fx(5) loop'[unfolded m_def])
       (simp add: imp')
qed

lemma example_reorder_run:
  "reorder_PQ_states example_unordered ''ground'' = Inr example_reordered"
  by (simp add: reorder_PQ_states_ground_unfold example_unordered_def example_reordered_def
      example_impurity_def example_state_def example_trans_def)

text \<open>The first application on the three-state model and the second on its result.\<close>

theorem reorder_PQ_states_idempotent_witness:
  "reorder_PQ_states example_unordered ''ground'' = Inr example_reordered \<and>
   reorder_PQ_states example_reordered ''ground'' = Inr example_reordered"
  using reorder_PQ_states_idempotent[OF example_reorder_run] example_reorder_run by simp

section \<open>The Integrity Checker\<close>

lemma compact_map_Some [simp]: "compact (map Some xs) = xs"
  by (induction xs) auto

lemma compact_map_if:
  "compact (map (\<lambda>x. if Q x then None else Some x) xs) = filter (\<lambda>x. \<not> Q x) xs"
  by (induction xs) auto

lemma null_count_map_if:
  "null_count (map (\<lambda>x. if Q x then None else Some x) xs) = length (filter Q xs)"
  by (induction xs) (auto simp: null_count_def)

lemma precedes_filter:
  "P a \<Longrightarrow> P b \<Longrightarrow> precedes (filter P xs) a b = precedes xs a b"
  by (induction xs) auto

lemma get_associated_transitions_empty:
  "length from_ids = length to_ids \<Longrightarrow>
   (get_associated_transitions sid from_ids to_ids = []) =
   (sid \<notin> set from_ids \<and> sid \<notin> set to_ids)"
  by (auto simp: get_associated_transitions_def filter_empty_conv in_set_conv_nth)

lemma states_remove_orphaned_states:
  "states (remove_orphaned_states imp) = filter (touched (transitions imp)) (states imp)"
proof -
  have "(length (get_associated_transitions (state_id s) (map from_id (transitions imp))
            (map to_id (transitions imp))) = 0) = (\<not> touched (transitions imp) s)" for s
    using get_associated_transitions_empty[of "map from_id (transitions imp)"
        "map to_id (transitions imp)" "state_id s"]
    by (simp add: touched_def)
  then show ?thesis
    by (simp add: remove_orphaned_states_def mark_orphaned_states_def Let_def compact_map_if)
qed

lemma transitions_remove_orphaned_states [simp]:
  "transitions (remove_orphaned_states imp) = transitions imp"
  by (simp add: remove_orphaned_states_def Let_def)

lemma remove_negative_iz_states_id: "remove_negative_iz_states imp = imp"
  by (cases "autoionization imp") (simp add: remove_negative_iz_states_def)

lemma transitions_remove_orphaned_transitions:
  "transitions (remove_orphaned_transitions imp) =
     filter (\<lambda>t. from_id t \<in> state_id ` set (states imp) \<and> to_id t \<in> state_id ` set (states imp))
       (transitions imp)"
proof -
  have "mark_orphaned_transitions ids ts =
        map (\<lambda>t. if \<not> (from_id t \<in> set ids \<and> to_id t \<in> set ids) then None else Some t) ts"
    for ids ts
    by (simp add: mark_orphaned_transitions_def)
  then show ?thesis
    by (simp add: remove_orphaned_transitions_def Let_def compact_map_if)
qed

lemma states_remove_orphaned_transitions [simp]:
  "states (remove_orphaned_transitions imp) = states imp"
  by (simp add: remove_orphaned_transitions_def Let_def)

lemma grid_check_mismatch:
  assumes "length Egrid = length trans_Egrid"
  shows "(grid_check Egrid trans_Egrid = Inl GridMismatchError) =
         (\<exists>i<length Egrid. \<bar>Egrid ! i - trans_Egrid ! i\<bar> > 1 / 100000)"
proof (cases "Egrid = []")
  case True
  with assms show ?thesis by (simp add: grid_check_def np_sub_def np_max_def)
next
  case False
  let ?d = "map abs (map2 (\<lambda>x y. x - y) Egrid trans_Egrid)"
  from False assms have ne: "?d \<noteq> []" by (cases Egrid; cases trans_Egrid) auto
  have d: "?d = map (\<lambda>i. \<bar>Egrid ! i - trans_Egrid ! i\<bar>) [0..<length Egrid]"
    using assms by (intro nth_equalityI) simp_all
  have "(Max (set ?d) > 1 / 100000) = (\<exists>x\<in>set ?d. x > 1 / 100000)"
    using ne by (subst Max_gr_iff) auto
  also have "\<dots> = (\<exists>i<length Egrid. \<bar>Egrid ! i - trans_Egrid ! i\<bar> > 1 / 100000)"
    unfolding d by auto
  finally have m: "(Max (set ?d) > 1 / 100000) =
      (\<exists>i<length Egrid. \<bar>Egrid ! i - trans_Egrid ! i\<bar> > 1 / 100000)" .
  show ?thesis
    using assms ne m by (simp add: grid_check_def np_sub_def np_max_def)
qed

lemmas example_defs =
  example_impurity_def example_state_def example_trans_def

lemmas checks_defs =
  state_and_transition_checks_def grid_check_def np_sub_def np_max_def
  remove_orphaned_states_def mark_orphaned_states_def get_associated_transitions_def
  remove_negative_iz_states_def mark_negative_iz_states_def
  remove_orphaned_transitions_def mark_orphaned_transitions_def null_count_def Let_def

text \<open>
  The grid check of the stage, taken by itself: for two grids of the same length,
  \<^verbatim>\<open>state_and_transition_checks\<close> raises the grid-mismatch error exactly when the absolute
  difference of the two grids exceeds \<open>1e-5\<close> at some point, and it then returns no model.
\<close>

theorem grid_mismatch_raised:
  assumes "length Egrid = length trans_Egrid"
  shows "(state_and_transition_checks imp Egrid trans_Egrid = Inl GridMismatchError) =
           (\<exists>i<length Egrid. \<bar>Egrid ! i - trans_Egrid ! i\<bar> > 1 / 100000) \<and>
         ((\<exists>i<length Egrid. \<bar>Egrid ! i - trans_Egrid ! i\<bar> > 1 / 100000) \<longrightarrow>
            (\<forall>imp'. state_and_transition_checks imp Egrid trans_Egrid \<noteq> Inr imp'))"
proof -
  have "(state_and_transition_checks imp Egrid trans_Egrid = Inl GridMismatchError) =
        (grid_check Egrid trans_Egrid = Inl GridMismatchError)"
    by (simp add: state_and_transition_checks_def split: sum.splits)
  with grid_check_mismatch[OF assms]
  have 1: "(state_and_transition_checks imp Egrid trans_Egrid = Inl GridMismatchError) =
           (\<exists>i<length Egrid. \<bar>Egrid ! i - trans_Egrid ! i\<bar> > 1 / 100000)"
    by simp
  then show ?thesis by auto
qed

text \<open>
  The statement at the grids \<open>[1, 2]\<close> and \<open>[1, 2.5]\<close>, which differ at index 1.
\<close>

theorem grid_mismatch_raised_witness:
  "length [1, 2 :: real] = length [1, 5 / 2 :: real] \<and>
   state_and_transition_checks example_consistent [1, 2] [1, 5 / 2] = Inl GridMismatchError \<and>
   \<bar>[1, 2 :: real] ! 1 - [1, 5 / 2] ! 1\<bar> > 1 / 100000"
proof -
  have h: "length [1, 2 :: real] = length [1, 5 / 2 :: real]" by simp
  have d: "\<bar>[1, 2 :: real] ! 1 - [1, 5 / 2] ! 1\<bar> > 1 / 100000" by simp
  then have "\<exists>i<length [1, 2 :: real]. \<bar>[1, 2 :: real] ! i - [1, 5 / 2] ! i\<bar> > 1 / 100000"
    by (intro exI[of _ 1]) simp
  with grid_mismatch_raised[OF h, of example_consistent] h d show ?thesis by blast
qed

lemma example_consistent_run:
  "state_and_transition_checks example_consistent [1, 2] [1, 2] = Inr example_consistent_checked"
  by (simp add: checks_defs example_consistent_def example_consistent_checked_def example_defs)

lemma example_dangling_run:
  "state_and_transition_checks example_dangling [1, 2] [1, 2] = Inr example_dangling_checked"
  by (simp add: checks_defs example_dangling_def example_dangling_checked_def example_defs)

text \<open>
  Claim C4 fails as stated.  Two states with ids 0 and 1 and the transitions \<open>0 \<rightarrow> 5\<close> and
  \<open>1 \<rightarrow> 6\<close>: both states are kept, because a transition names each of them, and both
  transitions are then removed, because ids 5 and 6 name no state.  Two states survive and
  neither has an associated transition.
\<close>

theorem checks_leave_isolated_states:
  "state_and_transition_checks example_dangling [1, 2] [1, 2] = Inr example_dangling_checked \<and>
   map state_id (states example_dangling_checked) = [0, 1] \<and>
   get_associated_transitions 0 (map from_id (transitions example_dangling_checked))
     (map to_id (transitions example_dangling_checked)) = [] \<and>
   get_associated_transitions 1 (map from_id (transitions example_dangling_checked))
     (map to_id (transitions example_dangling_checked)) = []"
  using example_dangling_run
  by (simp add: example_dangling_checked_def example_defs get_associated_transitions_def)

text \<open>
  Claim C4, amended.  After the integrity-checking stage completes, every surviving
  transition's \<open>from_id\<close> and \<open>to_id\<close> are ids of surviving states, and every surviving state
  has at least one associated transition in the transition list the stage started from.
  That transition survives as well when the stage started from transitions whose endpoints
  all name listed states and from states none of which has a negative \<open>iz_energy\<close>.
\<close>

theorem integrity_after_checks:
  assumes run: "state_and_transition_checks imp Egrid trans_Egrid = Inr imp'"
  shows "(\<forall>t\<in>set (transitions imp').
            from_id t \<in> state_id ` set (states imp') \<and> to_id t \<in> state_id ` set (states imp')) \<and>
         (\<forall>s\<in>set (states imp').
            get_associated_transitions (state_id s) (map from_id (transitions imp))
              (map to_id (transitions imp)) \<noteq> []) \<and>
         (list_all (\<lambda>t. from_id t \<in> state_id ` set (states imp) \<and>
                         to_id t \<in> state_id ` set (states imp)) (transitions imp) \<and>
          list_all (\<lambda>s. \<not> iz_energy s < 0) (states imp) \<longrightarrow>
          (\<forall>s\<in>set (states imp').
             get_associated_transitions (state_id s) (map from_id (transitions imp'))
               (map to_id (transitions imp')) \<noteq> []))"
proof -
  from run have imp': "imp' = remove_orphaned_transitions (remove_orphaned_states imp)"
    by (auto simp: state_and_transition_checks_def remove_negative_iz_states_id split: sum.splits)
  have st: "states imp' = filter (touched (transitions imp)) (states imp)"
    by (simp add: imp' states_remove_orphaned_states)
  have tr: "transitions imp' =
      filter (\<lambda>t. from_id t \<in> state_id ` set (states imp') \<and> to_id t \<in> state_id ` set (states imp'))
        (transitions imp)"
    by (simp add: imp' transitions_remove_orphaned_transitions)
  have assoc: "(get_associated_transitions (state_id s) (map from_id ts) (map to_id ts) \<noteq> []) =
      touched ts s" for s ts
    using get_associated_transitions_empty[of "map from_id ts" "map to_id ts" "state_id s"]
    by (simp add: touched_def)
  have c1: "\<forall>t\<in>set (transitions imp').
            from_id t \<in> state_id ` set (states imp') \<and> to_id t \<in> state_id ` set (states imp')"
    by (subst tr) simp
  have c2: "\<forall>s\<in>set (states imp').
            get_associated_transitions (state_id s) (map from_id (transitions imp))
              (map to_id (transitions imp)) \<noteq> []"
    by (simp add: assoc st)
  have c3: "\<forall>s\<in>set (states imp').
             get_associated_transitions (state_id s) (map from_id (transitions imp'))
               (map to_id (transitions imp')) \<noteq> []"
    if ends: "list_all (\<lambda>t. from_id t \<in> state_id ` set (states imp) \<and>
                         to_id t \<in> state_id ` set (states imp)) (transitions imp)"
  proof -
    have "from_id t \<in> state_id ` set (states imp') \<and> to_id t \<in> state_id ` set (states imp')"
      if t: "t \<in> set (transitions imp)" for t
    proof -
      from ends t obtain a b where ab: "a \<in> set (states imp)" "state_id a = from_id t"
        "b \<in> set (states imp)" "state_id b = to_id t"
        by (auto simp: list_all_iff)
      with t have "touched (transitions imp) a" "touched (transitions imp) b"
        by (auto simp: touched_def)
      with ab have "a \<in> set (states imp')" "b \<in> set (states imp')" by (simp_all add: st)
      with ab show ?thesis by (metis imageI)
    qed
    then have "transitions imp' = transitions imp"
      by (subst tr) (simp add: filter_id_conv)
    with c2 show ?thesis by simp
  qed
  from c1 c2 c3 show ?thesis by blast
qed

text \<open>
  The statement at three states, one of them orphaned, and one transition.
\<close>

theorem integrity_after_checks_witness:
  "state_and_transition_checks example_consistent [1, 2] [1, 2] = Inr example_consistent_checked \<and>
   list_all (\<lambda>t. from_id t \<in> state_id ` set (states example_consistent) \<and>
                  to_id t \<in> state_id ` set (states example_consistent))
     (transitions example_consistent) \<and>
   list_all (\<lambda>s. \<not> iz_energy s < 0) (states example_consistent) \<and>
   list_all (\<lambda>t. from_id t \<in> state_id ` set (states example_consistent_checked) \<and>
                  to_id t \<in> state_id ` set (states example_consistent_checked))
     (transitions example_consistent_checked) \<and>
   list_all (\<lambda>s. get_associated_transitions (state_id s)
                    (map from_id (transitions example_consistent))
                    (map to_id (transitions example_consistent)) \<noteq> [])
     (states example_consistent_checked) \<and>
   list_all (\<lambda>s. get_associated_transitions (state_id s)
                    (map from_id (transitions example_consistent_checked))
                    (map to_id (transitions example_consistent_checked)) \<noteq> [])
     (states example_consistent_checked)"
proof -
  have h1: "list_all (\<lambda>t. from_id t \<in> state_id ` set (states example_consistent) \<and>
                  to_id t \<in> state_id ` set (states example_consistent))
     (transitions example_consistent)"
    by (simp add: example_consistent_def example_defs)
  have h2: "list_all (\<lambda>s. \<not> iz_energy s < 0) (states example_consistent)"
    by (simp add: example_consistent_def example_defs)
  from integrity_after_checks[OF example_consistent_run] h1 h2 example_consistent_run
  show ?thesis unfolding list_all_iff by blast
qed

text \<open>
  Claim C9.  Each removal pass of the integrity checker keeps the relative order of the
  survivors: for two surviving states \<open>a\<close>, \<open>b\<close> (two surviving transitions \<open>t\<close>, \<open>u\<close>) the one
  precedes the other after the pass exactly when it did before.  The two passes over the
  states leave the transition list as it is, and the pass over the transitions leaves the
  state list as it is.  The list operation of the pass over negative \<open>iz_energy\<close> is also
  stated by itself, without the guard on \<^verbatim>\<open>self.autoionization\<close>.
\<close>

theorem removal_passes_preserve_order:
  "(a \<in> set (states (remove_orphaned_states imp)) \<and> b \<in> set (states (remove_orphaned_states imp))
      \<longrightarrow> precedes (states (remove_orphaned_states imp)) a b = precedes (states imp) a b) \<and>
   transitions (remove_orphaned_states imp) = transitions imp \<and>
   (a \<in> set (states (remove_negative_iz_states imp)) \<and>
    b \<in> set (states (remove_negative_iz_states imp))
      \<longrightarrow> precedes (states (remove_negative_iz_states imp)) a b = precedes (states imp) a b) \<and>
   (a \<in> set (compact (mark_negative_iz_states (states imp))) \<and>
    b \<in> set (compact (mark_negative_iz_states (states imp)))
      \<longrightarrow> precedes (compact (mark_negative_iz_states (states imp))) a b = precedes (states imp) a b) \<and>
   transitions (remove_negative_iz_states imp) = transitions imp \<and>
   (t \<in> set (transitions (remove_orphaned_transitions imp)) \<and>
    u \<in> set (transitions (remove_orphaned_transitions imp))
      \<longrightarrow> precedes (transitions (remove_orphaned_transitions imp)) t u =
           precedes (transitions imp) t u) \<and>
   states (remove_orphaned_transitions imp) = states imp"
proof -
  have 1: "a \<in> set (states (remove_orphaned_states imp)) \<and> b \<in> set (states (remove_orphaned_states imp))
      \<longrightarrow> precedes (states (remove_orphaned_states imp)) a b = precedes (states imp) a b"
    by (simp add: states_remove_orphaned_states precedes_filter)
  have 2: "a \<in> set (compact (mark_negative_iz_states (states imp))) \<and>
    b \<in> set (compact (mark_negative_iz_states (states imp)))
      \<longrightarrow> precedes (compact (mark_negative_iz_states (states imp))) a b = precedes (states imp) a b"
    by (simp add: mark_negative_iz_states_def compact_map_if precedes_filter)
  have 3: "t \<in> set (transitions (remove_orphaned_transitions imp)) \<and>
    u \<in> set (transitions (remove_orphaned_transitions imp))
      \<longrightarrow> precedes (transitions (remove_orphaned_transitions imp)) t u =
           precedes (transitions imp) t u"
    by (simp add: transitions_remove_orphaned_transitions precedes_filter)
  from 1 2 3 show ?thesis
    by (simp add: remove_negative_iz_states_id)
qed


text \<open>
  The statement at three states and three transitions, where the orphaned-state pass
  removes the state between the two named ones and the orphaned-transition pass removes the
  transition between the two named ones.
\<close>

theorem removal_passes_preserve_order_witness:
  "example_state 4 0 0 \<in> set (states (remove_orphaned_states example_unchecked)) \<and>
   example_state 7 1 5 \<in> set (states (remove_orphaned_states example_unchecked)) \<and>
   precedes (states (remove_orphaned_states example_unchecked)) (example_state 4 0 0) (example_state 7 1 5) =
     precedes (states example_unchecked) (example_state 4 0 0) (example_state 7 1 5) \<and>
   example_state 4 0 0 \<in> set (states (remove_negative_iz_states example_unchecked)) \<and>
   example_state 7 1 5 \<in> set (states (remove_negative_iz_states example_unchecked)) \<and>
   precedes (states (remove_negative_iz_states example_unchecked)) (example_state 4 0 0) (example_state 7 1 5) =
     precedes (states example_unchecked) (example_state 4 0 0) (example_state 7 1 5) \<and>
   example_state 4 0 0 \<in> set (compact (mark_negative_iz_states (states example_unchecked))) \<and>
   example_state 7 1 5 \<in> set (compact (mark_negative_iz_states (states example_unchecked))) \<and>
   precedes (compact (mark_negative_iz_states (states example_unchecked)))
       (example_state 4 0 0) (example_state 7 1 5) =
     precedes (states example_unchecked) (example_state 4 0 0) (example_state 7 1 5) \<and>
   example_trans ''ionization'' 4 7 \<in> set (transitions (remove_orphaned_transitions example_unchecked)) \<and>
   example_trans ''radiative_recombination'' 7 4
     \<in> set (transitions (remove_orphaned_transitions example_unchecked)) \<and>
   precedes (transitions (remove_orphaned_transitions example_unchecked))
       (example_trans ''ionization'' 4 7) (example_trans ''radiative_recombination'' 7 4) =
     precedes (transitions example_unchecked)
       (example_trans ''ionization'' 4 7) (example_trans ''radiative_recombination'' 7 4) \<and>
   precedes (states example_unchecked) (example_state 4 0 0) (example_state 7 1 5) \<and>
   precedes (transitions example_unchecked)
       (example_trans ''ionization'' 4 7) (example_trans ''radiative_recombination'' 7 4)"
proof -
  have m1: "example_state 4 0 0 \<in> set (states (remove_orphaned_states example_unchecked))"
    "example_state 7 1 5 \<in> set (states (remove_orphaned_states example_unchecked))"
    by (simp_all add: checks_defs example_unchecked_def example_defs)
  have m2: "example_state 4 0 0 \<in> set (states (remove_negative_iz_states example_unchecked))"
    "example_state 7 1 5 \<in> set (states (remove_negative_iz_states example_unchecked))"
    by (simp_all add: checks_defs example_unchecked_def example_defs)
  have m3: "example_state 4 0 0 \<in> set (compact (mark_negative_iz_states (states example_unchecked)))"
    "example_state 7 1 5 \<in> set (compact (mark_negative_iz_states (states example_unchecked)))"
    by (simp_all add: checks_defs example_unchecked_def example_defs)
  have m4: "example_trans ''ionization'' 4 7
      \<in> set (transitions (remove_orphaned_transitions example_unchecked))"
    "example_trans ''radiative_recombination'' 7 4
      \<in> set (transitions (remove_orphaned_transitions example_unchecked))"
    by (simp_all add: checks_defs example_unchecked_def example_defs)
  have p: "precedes (states example_unchecked) (example_state 4 0 0) (example_state 7 1 5)"
    "precedes (transitions example_unchecked)
       (example_trans ''ionization'' 4 7) (example_trans ''radiative_recombination'' 7 4)"
    by (simp_all add: example_unchecked_def example_defs)
  from removal_passes_preserve_order[where imp = example_unchecked
      and a = "example_state 4 0 0" and b = "example_state 7 1 5"
      and t = "example_trans ''ionization'' 4 7"
      and u = "example_trans ''radiative_recombination'' 7 4"] m1 m2 m3 m4 p
  show ?thesis by blast
qed

text \<open>
  The evolved-state count stays the length of the state list: each removal of a state
  decrements it by one.
\<close>

lemma length_compact: "length (compact xs) + null_count xs = length xs"
  by (induction xs rule: compact.induct) (simp_all add: null_count_def)

lemma checks_tot_states:
  assumes "tot_states imp = int (length (states imp))"
      and "state_and_transition_checks imp Egrid trans_Egrid = Inr imp'"
  shows "tot_states imp' = int (length (states imp'))"
proof -
  from assms(2) have imp': "imp' = remove_orphaned_transitions (remove_orphaned_states imp)"
    by (auto simp: state_and_transition_checks_def remove_negative_iz_states_id split: sum.splits)
  let ?m = "mark_orphaned_states (map from_id (transitions imp)) (map to_id (transitions imp))
              (states imp)"
  have "length ?m = length (states imp)" by (simp add: mark_orphaned_states_def)
  with length_compact[of ?m] have "int (length (compact ?m)) = int (length (states imp)) - int (null_count ?m)"
    by linarith
  with assms(1) show ?thesis
    by (simp add: imp' remove_orphaned_transitions_def remove_orphaned_states_def Let_def)
qed

section \<open>Ground states and ionization energies\<close>

lemma first_index_Some:
  "(first_index P xs = Some k) = (k < length xs \<and> P (xs ! k) \<and> (\<forall>j<k. \<not> P (xs ! j)))"
proof (induction xs arbitrary: k)
  case Nil
  then show ?case by simp
next
  case (Cons x xs)
  show ?case
  proof (cases "P x")
    case True
    then show ?thesis by (cases k) auto
  next
    case False
    show ?thesis
    proof (cases k)
      case 0
      with False show ?thesis by auto
    next
      case (Suc k')
      have "(\<forall>j<Suc k'. \<not> P ((x # xs) ! j)) = (\<forall>j<k'. \<not> P (xs ! j))"
        using False by (auto simp: less_Suc_eq_0_disj)
      with False Suc Cons.IH[of k'] show ?thesis by auto
    qed
  qed
qed

lemma first_index_None: "(first_index P xs = None) = (\<forall>x\<in>set xs. \<not> P x)"
  by (induction xs) auto

lemma first_index_cong:
  "(\<And>x. x \<in> set xs \<Longrightarrow> P x = Q x) \<Longrightarrow> first_index P xs = first_index Q xs"
  by (induction xs) auto

lemma np_argmin_Inr:
  assumes "es \<noteq> []"
  shows "\<exists>k. np_argmin es = Inr k \<and> k < length es \<and> es ! k = Min (set es) \<and>
           (\<forall>j<k. es ! j \<noteq> Min (set es))"
proof -
  from assms have "Min (set es) \<in> set es" by (intro Min_in) auto
  then have "first_index (\<lambda>e. e = Min (set es)) es \<noteq> None"
    by (auto simp: first_index_None)
  then obtain k where k: "first_index (\<lambda>e. e = Min (set es)) es = Some k" by auto
  then have "k < length es \<and> es ! k = Min (set es) \<and> (\<forall>j<k. es ! j \<noteq> Min (set es))"
    by (simp add: first_index_Some)
  moreover from k have "np_argmin es = Inr k" by (simp add: np_argmin_def)
  ultimately show ?thesis by blast
qed

lemma np_argmin_Nil: "np_argmin [] = Inl ArgminEmptyError"
  by (simp add: np_argmin_def)

lemma filter_take_nth:
  assumes "i < length xs" "P (xs ! i)"
  shows "filter P xs ! length (filter P (take i xs)) = xs ! i"
    and "take (length (filter P (take i xs))) (filter P xs) = filter P (take i xs)"
    and "length (filter P (take i xs)) < length (filter P xs)"
proof -
  have "xs = take i xs @ xs ! i # drop (Suc i) xs"
    using assms(1) by (simp add: id_take_nth_drop)
  then have "filter P xs = filter P (take i xs @ xs ! i # drop (Suc i) xs)" by simp
  then have f: "filter P xs = filter P (take i xs) @ xs ! i # filter P (drop (Suc i) xs)"
    using assms(2) by simp
  show "filter P xs ! length (filter P (take i xs)) = xs ! i"
    by (subst f) simp
  show "take (length (filter P (take i xs))) (filter P xs) = filter P (take i xs)"
    by (subst f) simp
  have "length (filter P xs) =
      length (filter P (take i xs)) + Suc (length (filter P (drop (Suc i) xs)))"
    by (subst f) simp
  then show "length (filter P (take i xs)) < length (filter P xs)" by simp
qed

lemma stage_ground:
  assumes ids: "distinct (map state_id sts)"
      and eq: "\<forall>s\<in>set sts. \<forall>s'\<in>set sts. equals s s' = (state_id s = state_id s')"
      and ne: "\<exists>s\<in>set sts. Z s = z"
  shows "\<exists>k i. np_argmin (map energy (filter (\<lambda>s. Z s = z) sts)) = Inr k \<and>
            first_index (\<lambda>s. equals s (filter (\<lambda>s. Z s = z) sts ! k)) sts = Some i \<and>
            sts ! i = filter (\<lambda>s. Z s = z) sts ! k \<and>
            i < length sts \<and> Z (sts ! i) = z \<and> first_min sts i \<and>
            energy (sts ! i) = stage_min sts z"
proof -
  define Zs where "Zs = filter (\<lambda>s. Z s = z) sts"
  define es where "es = map energy Zs"
  from ne have "Zs \<noteq> []" by (auto simp: Zs_def filter_empty_conv)
  then have "es \<noteq> []" by (simp add: es_def)
  from np_argmin_Inr[OF this] obtain k where k: "np_argmin es = Inr k" "k < length es"
    "es ! k = Min (set es)" "\<forall>j<k. es ! j \<noteq> Min (set es)" by blast
  define gs where "gs = Zs ! k"
  have kZ: "k < length Zs" using k(2) by (simp add: es_def)
  then have "gs \<in> set Zs" by (simp add: gs_def)
  then have gs: "gs \<in> set sts" "Z gs = z" by (simp_all add: Zs_def)
  then obtain i where i: "i < length sts" "sts ! i = gs" by (auto simp: in_set_conv_nth)
  have dsts: "distinct sts" using ids by (simp add: distinct_map)
  have "first_index (\<lambda>s. equals s gs) sts = first_index (\<lambda>s. state_id s = state_id gs) sts"
    using eq gs(1) by (intro first_index_cong) simp
  also have "\<dots> = Some i"
  proof -
    have "state_id (sts ! j) \<noteq> state_id gs" if "j < i" for j
    proof
      assume "state_id (sts ! j) = state_id gs"
      with that i have "map state_id sts ! j = map state_id sts ! i" by simp
      moreover have "j < length (map state_id sts)" "i < length (map state_id sts)"
        using that i(1) by simp_all
      ultimately have "j = i" using ids nth_eq_iff_index_eq by blast
      with that show False by simp
    qed
    with i show ?thesis by (simp add: first_index_Some)
  qed
  finally have fi: "first_index (\<lambda>s. equals s gs) sts = Some i" .
  have en: "energy (sts ! i) = stage_min sts z"
    using k(3) kZ by (simp add: i gs_def stage_min_def es_def Zs_def)
  have Zi: "Z (sts ! i) = z" by (simp add: i gs)
  let ?k' = "length (filter (\<lambda>s. Z s = z) (take i sts))"
  from filter_take_nth[of i sts "\<lambda>s. Z s = z"] i(1) Zi
  have ft: "Zs ! ?k' = sts ! i" "take ?k' Zs = filter (\<lambda>s. Z s = z) (take i sts)" "?k' < length Zs"
    by (simp_all add: Zs_def)
  have "distinct Zs" using dsts by (simp add: Zs_def)
  with ft(1,3) kZ have kk: "?k' = k"
    by (simp add: nth_eq_iff_index_eq i gs_def)
  have "energy s \<noteq> energy (sts ! i)" if "s \<in> set (take k Zs)" for s
  proof -
    from that obtain j where j: "j < k" "Zs ! j = s"
      using kZ by (auto simp: in_set_conv_nth)
    with k(4) kZ have "es ! j \<noteq> Min (set es)" by simp
    moreover have "es ! j = energy s" using j kZ by (simp add: es_def)
    moreover have "Min (set es) = energy (sts ! i)"
      using k(3) kZ by (simp add: i gs_def es_def)
    ultimately show ?thesis by simp
  qed
  then have "list_all (\<lambda>s. energy s \<noteq> energy (sts ! i)) (filter (\<lambda>s. Z s = z) (take i sts))"
    using ft(2) kk by (simp add: list_all_iff)
  with i(1) en Zi have fm: "first_min sts i" by (simp add: first_min_def)
  from k(1) fi i en Zi fm show ?thesis
    unfolding es_def Zs_def gs_def by blast
qed

lemma first_min_unique:
  assumes "first_min sts i" "first_min sts j" "Z (sts ! i) = Z (sts ! j)"
  shows "i = j"
proof -
  have aux: False if "first_min sts a" "first_min sts b" "Z (sts ! a) = Z (sts ! b)" "a < b" for a b
  proof -
    from that(2)[unfolded first_min_def]
    have b: "b < length sts" "energy (sts ! b) = stage_min sts (Z (sts ! b))"
      "list_all (\<lambda>s. energy s \<noteq> energy (sts ! b)) (filter (\<lambda>s. Z s = Z (sts ! b)) (take b sts))"
      by blast+
    from that(1)[unfolded first_min_def]
    have a: "energy (sts ! a) = stage_min sts (Z (sts ! a))"
      by blast
    from that(4) b(1) have "sts ! a \<in> set (take b sts)"
      by (metis in_set_conv_nth length_take min.absorb2 less_imp_le nth_take)
    with that(3) b(3) have "energy (sts ! a) \<noteq> energy (sts ! b)"
      by (simp add: list_all_iff)
    with a b(2) that(3) show False by simp
  qed
  show ?thesis
  proof (rule ccontr)
    assume "i \<noteq> j"
    then consider "i < j" | "j < i" by linarith
    then show False
      using aux[of i j] aux[of j i] assms by cases simp_all
  qed
qed

lemma find_gs_correct:
  assumes ids: "distinct (map state_id sts)"
      and eq: "\<forall>s\<in>set sts. \<forall>s'\<in>set sts. equals s s' = (state_id s = state_id s')"
      and zs: "\<forall>z\<in>set zs. z < n \<and> (\<exists>s\<in>set sts. Z s = int z)"
      and len: "length ge = n" "length gp = n"
  shows "\<exists>ge' gp'. find_gs equals sts zs (ge, gp) = Inr (ge', gp') \<and>
           length ge' = n \<and> length gp' = n \<and>
           (\<forall>z<n. if z \<in> set zs
                   then ge' ! z = stage_min sts (int z) \<and> gp' ! z < length sts \<and>
                        Z (sts ! (gp' ! z)) = int z \<and> first_min sts (gp' ! z)
                   else ge' ! z = ge ! z \<and> gp' ! z = gp ! z)"
  using zs len
proof (induction zs arbitrary: ge gp)
  case Nil
  then show ?case by simp
next
  case (Cons z zs)
  from Cons.prems(1) have z: "z < n" "\<exists>s\<in>set sts. Z s = int z" by simp_all
  from stage_ground[OF ids eq z(2)] obtain k i where
    ki: "np_argmin (map energy (filter (\<lambda>s. Z s = int z) sts)) = Inr k"
        "first_index (\<lambda>s. equals s (filter (\<lambda>s. Z s = int z) sts ! k)) sts = Some i"
        "sts ! i = filter (\<lambda>s. Z s = int z) sts ! k"
        "i < length sts" "Z (sts ! i) = int z" "first_min sts i"
        "energy (sts ! i) = stage_min sts (int z)"
    by blast
  let ?ge = "ge[z := energy (sts ! i)]" and ?gp = "gp[z := i]"
  have step: "find_gs equals sts (z # zs) (ge, gp) = find_gs equals sts zs (?ge, ?gp)"
    using ki(1,2) by (simp add: Let_def ki(3))
  from Cons.prems have "\<forall>z\<in>set zs. z < n \<and> (\<exists>s\<in>set sts. Z s = int z)"
    "length ?ge = n" "length ?gp = n" by simp_all
  from Cons.IH[OF this] obtain ge' gp' where
    r: "find_gs equals sts zs (?ge, ?gp) = Inr (ge', gp')" "length ge' = n" "length gp' = n"
       "\<forall>y<n. if y \<in> set zs
                   then ge' ! y = stage_min sts (int y) \<and> gp' ! y < length sts \<and>
                        Z (sts ! (gp' ! y)) = int y \<and> first_min sts (gp' ! y)
                   else ge' ! y = ?ge ! y \<and> gp' ! y = ?gp ! y"
    by blast
  have "if y \<in> set (z # zs)
          then ge' ! y = stage_min sts (int y) \<and> gp' ! y < length sts \<and>
               Z (sts ! (gp' ! y)) = int y \<and> first_min sts (gp' ! y)
          else ge' ! y = ge ! y \<and> gp' ! y = gp ! y" if y: "y < n" for y
  proof (cases "y \<in> set zs")
    case True
    with r(4) y show ?thesis by simp
  next
    case False
    with r(4) y have e: "ge' ! y = ?ge ! y" "gp' ! y = ?gp ! y" by simp_all
    show ?thesis
    proof (cases "y = z")
      case True
      with e ki z(1) Cons.prems(2,3) show ?thesis by simp
    next
      case False
      with e \<open>y \<notin> set zs\<close> show ?thesis by simp
    qed
  qed
  with step r(1,2,3) show ?case by simp
qed

lemma np_get_nat: "0 \<le> i \<Longrightarrow> i < int (length xs) \<Longrightarrow> np_get xs i = Inr (xs ! nat i)"
  by (simp add: np_get_def)

lemma mark_state_correct:
  assumes "0 \<le> Z s" "Z s < int nZ" "length ge = nZ"
  shows "mark_state nZ ge gp i s =
           Inr (s\<lparr>ground := (i \<in> set gp),
                  iz_energy := (if Z s < int nZ - 1 then ge ! nat (Z s + 1) - energy s else 0),
                  energy_from_gs := energy s - ge ! nat (Z s)\<rparr>)"
  using assms by (simp add: mark_state_def np_get_nat)

lemma mark_loop_correct:
  assumes "\<forall>s\<in>set ss. 0 \<le> Z s \<and> Z s < int nZ" "length ge = nZ"
  shows "\<exists>ss'. mark_loop nZ ge gp i0 ss = Inr ss' \<and> length ss' = length ss \<and>
           (\<forall>j<length ss. ss' ! j =
              (ss ! j)\<lparr>ground := (i0 + j \<in> set gp),
                        iz_energy := (if Z (ss ! j) < int nZ - 1
                                      then ge ! nat (Z (ss ! j) + 1) - energy (ss ! j) else 0),
                        energy_from_gs := energy (ss ! j) - ge ! nat (Z (ss ! j))\<rparr>)"
  using assms(1)
proof (induction ss arbitrary: i0)
  case Nil
  then show ?case by simp
next
  case (Cons s ss)
  from Cons.prems have s: "0 \<le> Z s" "Z s < int nZ" and rest: "\<forall>s\<in>set ss. 0 \<le> Z s \<and> Z s < int nZ"
    by simp_all
  from Cons.IH[OF rest, of "Suc i0"] obtain ss' where
    r: "mark_loop nZ ge gp (Suc i0) ss = Inr ss'" "length ss' = length ss"
       "\<forall>j<length ss. ss' ! j =
              (ss ! j)\<lparr>ground := (Suc i0 + j \<in> set gp),
                        iz_energy := (if Z (ss ! j) < int nZ - 1
                                      then ge ! nat (Z (ss ! j) + 1) - energy (ss ! j) else 0),
                        energy_from_gs := energy (ss ! j) - ge ! nat (Z (ss ! j))\<rparr>"
    by blast
  let ?s' = "s\<lparr>ground := (i0 \<in> set gp),
                  iz_energy := (if Z s < int nZ - 1 then ge ! nat (Z s + 1) - energy s else 0),
                  energy_from_gs := energy s - ge ! nat (Z s)\<rparr>"
  have run: "mark_loop nZ ge gp i0 (s # ss) = Inr (?s' # ss')"
    using mark_state_correct[OF s assms(2), of gp i0] r(1) by simp
  have "(?s' # ss') ! j =
              ((s # ss) ! j)\<lparr>ground := (i0 + j \<in> set gp),
                        iz_energy := (if Z ((s # ss) ! j) < int nZ - 1
                                      then ge ! nat (Z ((s # ss) ! j) + 1) - energy ((s # ss) ! j) else 0),
                        energy_from_gs := energy ((s # ss) ! j) - ge ! nat (Z ((s # ss) ! j))\<rparr>"
    if "j < length (s # ss)" for j
  proof (cases j)
    case 0
    then show ?thesis by simp
  next
    case (Suc j')
    with that r(3) show ?thesis by simp
  qed
  with run r(2) show ?case by simp
qed

text \<open>The four-state example evaluated: the first of the two tied states is the ground state.\<close>

lemma example_levels_run:
  "init_ionization_energies same_id example_levels = Inr example_levels_marked"
  by (simp add: init_ionization_energies_def example_levels_def example_levels_marked_def
      example_impurity_def example_state_def same_id_def np_argmin_def mark_state_def
      np_get_def Let_def eval_nat_numeral upt_conv_Cons)

text \<open>
  The case in which every stage \<open>0, ..., num_Z - 1\<close> has a state: the call returns and
  changes only \<open>ground\<close>, \<open>iz_energy\<close> and \<open>energy_from_gs\<close>, as the specification describes.
\<close>

lemma init_ionization_energies_all_stages:
  assumes stages: "list_all (\<lambda>s. 0 \<le> Z s \<and> Z s < int (num_Z imp)) (states imp)"
      and present: "list_all (\<lambda>z. list_ex (\<lambda>s. Z s = int z) (states imp)) [0..<num_Z imp]"
      and ids: "distinct (map state_id (states imp))"
      and eq: "list_all (\<lambda>s. list_all (\<lambda>s'. equals s s' = (state_id s = state_id s')) (states imp))
                 (states imp)"
  shows "\<exists>sts'. init_ionization_energies equals imp = Inr (imp\<lparr>states := sts'\<rparr>) \<and>
           length sts' = length (states imp) \<and>
           (\<forall>i<length sts'. unmarked (sts' ! i) = unmarked (states imp ! i) \<and>
                             ground (sts' ! i) = first_min (states imp) i) \<and>
           (\<forall>z<num_Z imp. length (filter (\<lambda>s. Z s = int z \<and> ground s) sts') = 1) \<and>
           (\<forall>s\<in>set sts'. \<forall>g\<in>set sts'. ground g \<longrightarrow>
              (Z g = Z s + 1 \<longrightarrow> iz_energy s = energy g - energy s) \<and>
              (Z g = Z s \<longrightarrow> energy_from_gs s = energy s - energy g)) \<and>
           (\<forall>s\<in>set sts'. Z s = int (num_Z imp) - 1 \<longrightarrow> iz_energy s = 0)"
proof -
  define n where "n = num_Z imp"
  define sts where "sts = states imp"
  have st: "\<forall>s\<in>set sts. 0 \<le> Z s \<and> Z s < int n"
    using stages by (simp add: list_all_iff n_def sts_def)
  have eq': "\<forall>s\<in>set sts. \<forall>s'\<in>set sts. equals s s' = (state_id s = state_id s')"
    using eq by (simp add: list_all_iff sts_def)
  have ids': "distinct (map state_id sts)" using ids by (simp add: sts_def)
  have pr: "\<forall>z\<in>set [0..<n]. z < n \<and> (\<exists>s\<in>set sts. Z s = int z)"
    using present by (simp add: list_all_iff list_ex_iff n_def sts_def)
  from find_gs_correct[OF ids' eq' pr, of "replicate n 0" "replicate n 0"]
  obtain ge gp where g: "find_gs equals sts [0..<n] (replicate n 0, replicate n 0) = Inr (ge, gp)"
    "length ge = n" "length gp = n"
    "\<forall>z<n. ge ! z = stage_min sts (int z) \<and> gp ! z < length sts \<and>
            Z (sts ! (gp ! z)) = int z \<and> first_min sts (gp ! z)"
    by auto
  from mark_loop_correct[OF st g(2), of gp 0]
  obtain sts' where m: "mark_loop n ge gp 0 sts = Inr sts'" "length sts' = length sts"
    "\<forall>j<length sts. sts' ! j =
              (sts ! j)\<lparr>ground := (j \<in> set gp),
                        iz_energy := (if Z (sts ! j) < int n - 1
                                      then ge ! nat (Z (sts ! j) + 1) - energy (sts ! j) else 0),
                        energy_from_gs := energy (sts ! j) - ge ! nat (Z (sts ! j))\<rparr>"
    by auto
  have run: "init_ionization_energies equals imp = Inr (imp\<lparr>states := sts'\<rparr>)"
    using g(1) m(1) by (simp add: init_ionization_energies_def n_def sts_def)
  have gr: "(i \<in> set gp) = first_min sts i" if i: "i < length sts" for i
  proof
    assume "i \<in> set gp"
    then obtain z where "z < n" "gp ! z = i" using g(3) by (auto simp: in_set_conv_nth)
    with g(4) show "first_min sts i" by auto
  next
    assume fm: "first_min sts i"
    from i st have zi: "0 \<le> Z (sts ! i)" "Z (sts ! i) < int n" by simp_all
    define z where "z = nat (Z (sts ! i))"
    have z: "z < n" "int z = Z (sts ! i)" using zi by (simp_all add: z_def)
    with g(4) have "first_min sts (gp ! z)" "Z (sts ! (gp ! z)) = Z (sts ! i)" by simp_all
    from first_min_unique[OF this(1) fm this(2)] have "gp ! z = i" .
    with z(1) g(3) show "i \<in> set gp" by (metis nth_mem)
  qed
  have fld: "Z (sts' ! i) = Z (sts ! i)" "energy (sts' ! i) = energy (sts ! i)"
    "ground (sts' ! i) = first_min sts i"
    "iz_energy (sts' ! i) = (if Z (sts ! i) < int n - 1
                             then stage_min sts (Z (sts ! i) + 1) - energy (sts ! i) else 0)"
    "energy_from_gs (sts' ! i) = energy (sts ! i) - stage_min sts (Z (sts ! i))"
    "unmarked (sts' ! i) = unmarked (sts ! i)"
    if i: "i < length sts" for i
  proof -
    from i st have zi: "0 \<le> Z (sts ! i)" "Z (sts ! i) < int n" by simp_all
    have e0: "ge ! nat (Z (sts ! i)) = stage_min sts (Z (sts ! i))"
      using g(4) zi by (metis int_nat_eq nat_less_iff)
    have e1: "ge ! nat (Z (sts ! i) + 1) = stage_min sts (Z (sts ! i) + 1)"
      if "Z (sts ! i) < int n - 1"
    proof -
      from that zi have "nat (Z (sts ! i) + 1) < n" "int (nat (Z (sts ! i) + 1)) = Z (sts ! i) + 1"
        by simp_all
      with g(4) show ?thesis by metis
    qed
    from m(3) i have s': "sts' ! i =
              (sts ! i)\<lparr>ground := (i \<in> set gp),
                        iz_energy := (if Z (sts ! i) < int n - 1
                                      then ge ! nat (Z (sts ! i) + 1) - energy (sts ! i) else 0),
                        energy_from_gs := energy (sts ! i) - ge ! nat (Z (sts ! i))\<rparr>"
      by simp
    show "Z (sts' ! i) = Z (sts ! i)" "energy (sts' ! i) = energy (sts ! i)"
      "unmarked (sts' ! i) = unmarked (sts ! i)"
      by (simp_all add: s' unmarked_def)
    show "ground (sts' ! i) = first_min sts i" using gr[OF i] by (simp add: s')
    show "iz_energy (sts' ! i) = (if Z (sts ! i) < int n - 1
                             then stage_min sts (Z (sts ! i) + 1) - energy (sts ! i) else 0)"
      using e1 by (simp add: s')
    show "energy_from_gs (sts' ! i) = energy (sts ! i) - stage_min sts (Z (sts ! i))"
      using e0 by (simp add: s')
  qed
  have c1: "\<forall>i<length sts'. unmarked (sts' ! i) = unmarked (states imp ! i) \<and>
                             ground (sts' ! i) = first_min (states imp) i"
    using fld(3,6) m(2) by (simp add: sts_def)
  have c2: "length (filter (\<lambda>s. Z s = int z \<and> ground s) sts') = 1" if z: "z < n" for z
  proof -
    have "{i. i < length sts' \<and> Z (sts' ! i) = int z \<and> ground (sts' ! i)} = {gp ! z}"
    proof (intro set_eqI iffI)
      fix i assume "i \<in> {i. i < length sts' \<and> Z (sts' ! i) = int z \<and> ground (sts' ! i)}"
      then have i: "i < length sts" "Z (sts ! i) = int z" "first_min sts i"
        using fld(1,3) m(2) by auto
      from g(4) z have "first_min sts (gp ! z)" "Z (sts ! (gp ! z)) = Z (sts ! i)"
        using i(2) by simp_all
      from first_min_unique[OF this(1) i(3) this(2)] show "i \<in> {gp ! z}" by simp
    next
      fix i assume "i \<in> {gp ! z}"
      then have "i = gp ! z" by simp
      with g(4) z have "i < length sts" "Z (sts ! i) = int z" "first_min sts i" by simp_all
      then show "i \<in> {i. i < length sts' \<and> Z (sts' ! i) = int z \<and> ground (sts' ! i)}"
        using fld(1,3) m(2) by simp
    qed
    then show ?thesis by (simp add: length_filter_conv_card)
  qed
  have c3: "(Z g = Z s + 1 \<longrightarrow> iz_energy s = energy g - energy s) \<and>
            (Z g = Z s \<longrightarrow> energy_from_gs s = energy s - energy g)"
    if s: "s \<in> set sts'" and g': "g \<in> set sts'" and gg: "ground g" for s g
  proof -
    from s m(2) obtain a where a: "a < length sts" "sts' ! a = s" by (auto simp: in_set_conv_nth)
    from g' m(2) obtain b where b: "b < length sts" "sts' ! b = g" by (auto simp: in_set_conv_nth)
    from gg b fld(3)[OF b(1)] have "first_min sts b" by simp
    then have eb: "energy (sts ! b) = stage_min sts (Z (sts ! b))"
      unfolding first_min_def by blast
    have Zs: "Z s = Z (sts ! a)" "energy s = energy (sts ! a)"
      using fld(1,2)[OF a(1)] a(2) by simp_all
    have Zg: "Z g = Z (sts ! b)" "energy g = energy (sts ! b)"
      using fld(1,2)[OF b(1)] b(2) by simp_all
    from b(1) st have "Z (sts ! b) < int n" by simp
    then have "iz_energy s = energy g - energy s" if "Z g = Z s + 1"
      using that fld(4)[OF a(1)] a(2) eb Zs Zg by simp
    moreover have "energy_from_gs s = energy s - energy g" if "Z g = Z s"
      using that fld(5)[OF a(1)] a(2) eb Zs Zg by simp
    ultimately show ?thesis by blast
  qed
  have c4: "iz_energy s = 0" if s: "s \<in> set sts'" and top: "Z s = int n - 1" for s
  proof -
    from s m(2) obtain a where a: "a < length sts" "sts' ! a = s" by (auto simp: in_set_conv_nth)
    with top fld(1)[OF a(1)] fld(4)[OF a(1)] show ?thesis by simp
  qed
  from run m(2) c1 c2 c3 c4 show ?thesis
    unfolding n_def sts_def by blast
qed

text \<open>
  The loop over \<^verbatim>\<open>range(self.num_Z)\<close> visits every stage, and \<^verbatim>\<open>np.argmin\<close> raises on the empty
  list of a stage without a state, whatever the other stages hold.
\<close>

lemma find_gs_absent_stage:
  "list_ex (\<lambda>z. \<not> list_ex (\<lambda>s. Z s = int z) sts) zs \<Longrightarrow>
   find_gs equals sts zs acc = Inl ArgminEmptyError"
proof (induction zs arbitrary: acc)
  case Nil
  then show ?case by simp
next
  case (Cons z zs)
  obtain ge gp where acc: "acc = (ge, gp)" by (cases acc)
  show ?case
  proof (cases "list_ex (\<lambda>s. Z s = int z) sts")
    case False
    then have "filter (\<lambda>s. Z s = int z) sts = []"
      by (auto simp: list_ex_iff filter_empty_conv)
    then show ?thesis by (simp add: acc np_argmin_Nil)
  next
    case True
    with Cons.prems have rest: "list_ex (\<lambda>z. \<not> list_ex (\<lambda>s. Z s = int z) sts) zs" by simp
    from True have "map energy (filter (\<lambda>s. Z s = int z) sts) \<noteq> []"
      by (auto simp: list_ex_iff filter_empty_conv)
    from np_argmin_Inr[OF this] obtain k where
      k: "np_argmin (map energy (filter (\<lambda>s. Z s = int z) sts)) = Inr k" by blast
    show ?thesis
      using k Cons.IH[OF rest] by (simp add: acc Let_def split: option.splits)
  qed
qed

lemma init_ionization_energies_absent_stage:
  "\<not> list_all (\<lambda>z. list_ex (\<lambda>s. Z s = int z) (states imp)) [0..<num_Z imp] \<Longrightarrow>
   init_ionization_energies equals imp = Inl ArgminEmptyError"
proof -
  assume "\<not> list_all (\<lambda>z. list_ex (\<lambda>s. Z s = int z) (states imp)) [0..<num_Z imp]"
  then have "list_ex (\<lambda>z. \<not> list_ex (\<lambda>s. Z s = int z) (states imp)) [0..<num_Z imp]"
    by (simp add: list_all_iff list_ex_iff)
  from find_gs_absent_stage[OF this] show ?thesis
    by (simp add: init_ionization_energies_def)
qed

text \<open>
  Claim C6 fails as stated.  With \<open>num_Z = 2\<close> and two states, both of stage 0, stage 0 is
  present in the list, yet the call raises at stage 1 and no state is marked.
\<close>

theorem init_ionization_energies_raises_on_absent_stage:
  "list_ex (\<lambda>s. Z s = 0) (states example_single_stage) \<and>
   num_Z example_single_stage = 2 \<and>
   init_ionization_energies same_id example_single_stage = Inl ArgminEmptyError"
  by (simp add: init_ionization_energies_absent_stage example_single_stage_def
      example_impurity_def example_state_def eval_nat_numeral upt_conv_Cons)

text \<open>
  Claim C6, amended.  When some stage \<open>0, ..., num_Z - 1\<close> has no state in the list,
  \<^verbatim>\<open>init_ionization_energies\<close> raises the \<^verbatim>\<open>ValueError\<close> of \<^verbatim>\<open>np.argmin\<close> and marks nothing.  When
  every such stage has a state, every state has its stage in that range, the state ids are
  pairwise different and \<^verbatim>\<open>State.equals\<close> tells the states of the list apart, the call returns
  and changes only \<open>ground\<close>, \<open>iz_energy\<close> and \<open>energy_from_gs\<close>; a state is marked ground
  exactly when it is the minimum-energy state of its stage, the first in list order among
  equals; every stage has exactly one ground state; \<open>iz_energy\<close> is the energy of the ground
  state of the next stage minus the state's own energy, and \<open>0\<close> in the top stage; and
  \<open>energy_from_gs\<close> is the state's energy minus the energy of the ground state of its own
  stage.
\<close>

theorem init_ionization_energies_by_stages:
  "(\<not> list_all (\<lambda>z. list_ex (\<lambda>s. Z s = int z) (states imp)) [0..<num_Z imp] \<longrightarrow>
      init_ionization_energies equals imp = Inl ArgminEmptyError) \<and>
   (list_all (\<lambda>z. list_ex (\<lambda>s. Z s = int z) (states imp)) [0..<num_Z imp] \<and>
    list_all (\<lambda>s. 0 \<le> Z s \<and> Z s < int (num_Z imp)) (states imp) \<and>
    distinct (map state_id (states imp)) \<and>
    list_all (\<lambda>s. list_all (\<lambda>s'. equals s s' = (state_id s = state_id s')) (states imp))
      (states imp) \<longrightarrow>
    (\<exists>sts'. init_ionization_energies equals imp = Inr (imp\<lparr>states := sts'\<rparr>) \<and>
           length sts' = length (states imp) \<and>
           (\<forall>i<length sts'. unmarked (sts' ! i) = unmarked (states imp ! i) \<and>
                             ground (sts' ! i) = first_min (states imp) i) \<and>
           (\<forall>z<num_Z imp. length (filter (\<lambda>s. Z s = int z \<and> ground s) sts') = 1) \<and>
           (\<forall>s\<in>set sts'. \<forall>g\<in>set sts'. ground g \<longrightarrow>
              (Z g = Z s + 1 \<longrightarrow> iz_energy s = energy g - energy s) \<and>
              (Z g = Z s \<longrightarrow> energy_from_gs s = energy s - energy g)) \<and>
           (\<forall>s\<in>set sts'. Z s = int (num_Z imp) - 1 \<longrightarrow> iz_energy s = 0)))"
proof (intro conjI impI)
  assume "\<not> list_all (\<lambda>z. list_ex (\<lambda>s. Z s = int z) (states imp)) [0..<num_Z imp]"
  then show "init_ionization_energies equals imp = Inl ArgminEmptyError"
    by (rule init_ionization_energies_absent_stage)
next
  assume h: "list_all (\<lambda>z. list_ex (\<lambda>s. Z s = int z) (states imp)) [0..<num_Z imp] \<and>
    list_all (\<lambda>s. 0 \<le> Z s \<and> Z s < int (num_Z imp)) (states imp) \<and>
    distinct (map state_id (states imp)) \<and>
    list_all (\<lambda>s. list_all (\<lambda>s'. equals s s' = (state_id s = state_id s')) (states imp))
      (states imp)"
  then have present: "list_all (\<lambda>z. list_ex (\<lambda>s. Z s = int z) (states imp)) [0..<num_Z imp]"
    and stages: "list_all (\<lambda>s. 0 \<le> Z s \<and> Z s < int (num_Z imp)) (states imp)"
    and ids: "distinct (map state_id (states imp))"
    and eq: "list_all (\<lambda>s. list_all (\<lambda>s'. equals s s' = (state_id s = state_id s')) (states imp))
      (states imp)"
    by blast+
  from init_ionization_energies_all_stages[OF stages present ids eq]
  show "\<exists>sts'. init_ionization_energies equals imp = Inr (imp\<lparr>states := sts'\<rparr>) \<and>
           length sts' = length (states imp) \<and>
           (\<forall>i<length sts'. unmarked (sts' ! i) = unmarked (states imp ! i) \<and>
                             ground (sts' ! i) = first_min (states imp) i) \<and>
           (\<forall>z<num_Z imp. length (filter (\<lambda>s. Z s = int z \<and> ground s) sts') = 1) \<and>
           (\<forall>s\<in>set sts'. \<forall>g\<in>set sts'. ground g \<longrightarrow>
              (Z g = Z s + 1 \<longrightarrow> iz_energy s = energy g - energy s) \<and>
              (Z g = Z s \<longrightarrow> energy_from_gs s = energy s - energy g)) \<and>
           (\<forall>s\<in>set sts'. Z s = int (num_Z imp) - 1 \<longrightarrow> iz_energy s = 0)" .
qed

text \<open>
  The statement at the two states of stage 0, where the call raises, and at four states:
  three of stage 0, two of them tied at the least energy, and one of stage 1.
\<close>

theorem init_ionization_energies_by_stages_witness:
  "\<not> list_all (\<lambda>z. list_ex (\<lambda>s. Z s = int z) (states example_single_stage))
       [0..<num_Z example_single_stage] \<and>
   init_ionization_energies same_id example_single_stage = Inl ArgminEmptyError \<and>
   list_all (\<lambda>z. list_ex (\<lambda>s. Z s = int z) (states example_levels)) [0..<num_Z example_levels] \<and>
   list_all (\<lambda>s. 0 \<le> Z s \<and> Z s < int (num_Z example_levels)) (states example_levels) \<and>
   distinct (map state_id (states example_levels)) \<and>
   list_all (\<lambda>s. list_all (\<lambda>s'. same_id s s' = (state_id s = state_id s')) (states example_levels))
     (states example_levels) \<and>
   (\<exists>sts'. init_ionization_energies same_id example_levels = Inr (example_levels\<lparr>states := sts'\<rparr>) \<and>
           length sts' = length (states example_levels) \<and>
           (\<forall>i<length sts'. unmarked (sts' ! i) = unmarked (states example_levels ! i) \<and>
                             ground (sts' ! i) = first_min (states example_levels) i) \<and>
           (\<forall>z<num_Z example_levels. length (filter (\<lambda>s. Z s = int z \<and> ground s) sts') = 1) \<and>
           (\<forall>s\<in>set sts'. \<forall>g\<in>set sts'. ground g \<longrightarrow>
              (Z g = Z s + 1 \<longrightarrow> iz_energy s = energy g - energy s) \<and>
              (Z g = Z s \<longrightarrow> energy_from_gs s = energy s - energy g)) \<and>
           (\<forall>s\<in>set sts'. Z s = int (num_Z example_levels) - 1 \<longrightarrow> iz_energy s = 0))"
proof -
  have a: "\<not> list_all (\<lambda>z. list_ex (\<lambda>s. Z s = int z) (states example_single_stage))
       [0..<num_Z example_single_stage]"
    by (simp add: example_single_stage_def example_impurity_def example_state_def
        eval_nat_numeral upt_conv_Cons)
  have h1: "list_all (\<lambda>s. 0 \<le> Z s \<and> Z s < int (num_Z example_levels)) (states example_levels)"
    by (simp add: example_levels_def example_impurity_def example_state_def)
  have h2: "list_all (\<lambda>z. list_ex (\<lambda>s. Z s = int z) (states example_levels)) [0..<num_Z example_levels]"
    by (simp add: example_levels_def example_impurity_def example_state_def eval_nat_numeral
        upt_conv_Cons)
  have h3: "distinct (map state_id (states example_levels))"
    by (simp add: example_levels_def example_impurity_def example_state_def)
  have h4: "list_all (\<lambda>s. list_all (\<lambda>s'. same_id s s' = (state_id s = state_id s')) (states example_levels))
     (states example_levels)"
    by (simp add: same_id_def list_all_iff)
  from init_ionization_energies_by_stages[of example_single_stage same_id]
    init_ionization_energies_by_stages[of example_levels same_id] a h1 h2 h3 h4
  show ?thesis by blast
qed

section \<open>The settings stored as tuples\<close>

text \<open>
  The tests on the stored tuples do not depend on the setting inside the tuple: an integer
  is never a member of \<^verbatim>\<open>(state_ids,)\<close>, and the tuple is neither \<^verbatim>\<open>None\<close> nor false.
\<close>

lemma in_tuple1_False [simp]: "in_tuple1 i t = False"
proof (cases t)
  case (Tuple1 v)
  then show ?thesis by (cases v) simp_all
qed

lemma is_not_None_True [simp]: "is_not_None t = True"
  by (cases t) simp

lemma truthy_True [simp]: "truthy t = True"
  by (cases t) simp

lemma keep_user_states_drops_all: "compact (keep_user_states imp sts) = []"
  by (induction sts) (simp_all add: keep_user_states_def)

lemma find_gs_empty_stage:
  "find_gs equals [] (z # zs) acc = Inl ArgminEmptyError"
  by (cases acc) (simp add: np_argmin_Nil)

lemma init_states_raises:
  "0 < num_Z imp \<Longrightarrow> init_states equals imp levels_dict = Inl ArgminEmptyError"
  by (simp add: init_states_def keep_user_states_drops_all init_ionization_energies_def
      upt_conv_Cons np_argmin_Nil)

text \<open>
  Claim C1 (the code departs from it).  The claim: with an explicit list \<^verbatim>\<open>state_ids\<close>,
  \<^verbatim>\<open>init_states\<close> retains exactly the catalog states whose id is in the list, in catalog
  order, and with \<^verbatim>\<open>None\<close> it retains all of them.  The code: for a catalog of two levels
  and \<^verbatim>\<open>state_ids = [0, 1]\<close>, and for \<^verbatim>\<open>state_ids = None\<close>, the filter of \<^verbatim>\<open>init_states\<close> keeps no
  state, and \<^verbatim>\<open>init_ionization_energies\<close> then raises on the empty stage 0.
\<close>

theorem init_states_keeps_no_state:
  "compact (keep_user_states (example_impurity\<lparr>state_ids := Tuple1 (Some [0, 1])\<rparr>)
      (load_states 0 example_catalog)) = [] \<and>
   init_states same_id (example_impurity\<lparr>state_ids := Tuple1 (Some [0, 1])\<rparr>) example_catalog =
     Inl ArgminEmptyError \<and>
   compact (keep_user_states (example_impurity\<lparr>state_ids := Tuple1 None\<rparr>)
      (load_states 0 example_catalog)) = [] \<and>
   init_states same_id (example_impurity\<lparr>state_ids := Tuple1 None\<rparr>) example_catalog =
     Inl ArgminEmptyError"
  by (simp add: keep_user_states_drops_all init_states_raises example_impurity_def)

lemma create_transition_None: "create_transition imp entry = None"
  by (simp add: create_transition_def)

lemma create_transitions_Nil: "create_transitions imp entries = []"
  by (induction entries) (simp_all add: create_transitions_def create_transition_None)

text \<open>
  Claim C3 (the code departs from it).  The claim: a catalog entry becomes a transition
  exactly when both endpoints pass the user filter and its process type is enabled.  The
  code: with states 0 and 1, ionization enabled and the ionization entry \<open>0 \<rightarrow> 1\<close>, for
  \<^verbatim>\<open>state_ids = [0, 1]\<close> and for \<^verbatim>\<open>state_ids = None\<close>, no transition is created; the integrity
  checker then removes both states as orphans.
\<close>

theorem init_transitions_creates_none:
  "create_transitions (example_two_states\<lparr>state_ids := Tuple1 (Some [0, 1])\<rparr>) [example_entry] = [] \<and>
   create_transitions (example_two_states\<lparr>state_ids := Tuple1 None\<rparr>) [example_entry] = [] \<and>
   init_transitions (example_two_states\<lparr>state_ids := Tuple1 (Some [0, 1])\<rparr>)
       ([1, 2], [example_entry]) [1, 2] =
     Inr (example_two_states\<lparr>state_ids := Tuple1 (Some [0, 1]), states := [], tot_states := 0\<rparr>)"
  by (simp add: create_transitions_Nil init_transitions_def state_and_transition_checks_def
      grid_check_def np_sub_def np_max_def remove_orphaned_states_def mark_orphaned_states_def
      get_associated_transitions_def remove_negative_iz_states_def
      remove_orphaned_transitions_def mark_orphaned_transitions_def null_count_def Let_def
      example_two_states_def example_impurity_def example_state_def)

text \<open>
  Claim C7 (the code departs from it).  The claim: when Saha-Boltzmann initialization is
  not requested, only the first evolved state gets a density.  The code: whatever setting
  is stored in \<^verbatim>\<open>self.saha_boltzmann_init\<close>, \<^verbatim>\<open>init_dens\<close> runs the Saha-Boltzmann branch.
\<close>

theorem init_dens_takes_equilibrium_branch:
  "init_dens saha_dist boltzmann_dist gather_states imp ne Te =
     (case alloc_dens imp (length ne) of
        Inl e \<Rightarrow> Inl e
      | Inr imp1 \<Rightarrow> equilibrium_init saha_dist boltzmann_dist gather_states imp1 ne Te)"
  by (simp add: init_dens_def split: sum.splits)

text \<open>
  The branch that is never reached computes what the claim describes: for
  \<^verbatim>\<open>frac_imp_dens = 0.01\<close> and electron densities \<open>[1e19, 2e19]\<close> it gives the first of two
  states the densities \<open>[1e17, 2e17]\<close> and the other state zero.
\<close>

lemma fixed_init_example:
  "alloc_dens example_two_states 2 =
     Inr (example_two_states\<lparr>dens := [[0, 0], [0, 0]], dens_Max := [[0, 0], [0, 0]]\<rparr>) \<and>
   fixed_init (example_two_states\<lparr>dens := [[0, 0], [0, 0]], dens_Max := [[0, 0], [0, 0]]\<rparr>)
       [10 ^ 19, 2 * 10 ^ 19] =
     Inr (example_two_states\<lparr>dens := [[10 ^ 17, 0], [2 * 10 ^ 17, 0]],
                              dens_Max := [[10 ^ 17, 0], [2 * 10 ^ 17, 0]]\<rparr>)"
  by (simp add: alloc_dens_def fixed_init_def np_zeros_def set_col0_def
      example_two_states_def example_impurity_def eval_nat_numeral)

text \<open>Whenever \<^verbatim>\<open>init_states\<close> returns, the evolved-state count is the length of the state list.\<close>

lemma init_states_tot_states:
  "init_states equals imp levels_dict = Inr imp' \<Longrightarrow> tot_states imp' = int (length (states imp'))"
  using keep_user_states_drops_all[of imp "load_states 0 levels_dict"]
  by (auto simp: init_states_def init_ionization_energies_def split: sum.splits prod.splits)

text \<open>
  The constructor as a whole: for every element of the dictionary, whatever the catalog
  and the settings, construction ends in the exception of \<^verbatim>\<open>np.argmin\<close>; for every other
  name it ends in the \<^verbatim>\<open>KeyError\<close> of the dictionary.  No model is ever returned.
\<close>

lemma Impurity_init_raises:
  "Impurity_init equals saha_dist boltzmann_dist gather_states a levels_dict trans_dict =
     (case nuc_chg_dict (name_arg a) of
        None \<Rightarrow> Inl (NameKeyError (name_arg a))
      | Some nuc_chg \<Rightarrow> Inl ArgminEmptyError)"
  by (simp add: Impurity_init_def init_states_raises split: option.splits)

text \<open>
  Claim C2 (the code departs from it).  The claim: model construction raises the
  grid-mismatch error exactly when the simulation grid and the catalog grid differ by more
  than \<open>1e-5\<close> at some point.  The code: for the element \<^verbatim>\<open>"H"\<close>, the simulation grid
  \<open>[1, 2]\<close> and a transitions file tabulated on \<open>[1, 2.5]\<close>, the grids differ by \<open>0.5\<close> at
  index 1 and the check of the integrity stage would raise, but construction ends earlier,
  in the exception that \<^verbatim>\<open>np.argmin\<close> raises inside \<^verbatim>\<open>init_states\<close>.
\<close>

theorem construction_never_reaches_grid_check:
  "\<bar>Egrid_arg example_args ! 1 - [1, 5 / 2] ! 1\<bar> > 1 / 100000 \<and>
   state_and_transition_checks imp (Egrid_arg example_args) [1, 5 / 2] = Inl GridMismatchError \<and>
   Impurity_init equals saha_dist boltzmann_dist gather_states example_args example_catalog
       ([1, 5 / 2], [example_entry]) = Inl ArgminEmptyError"
  by (simp add: Impurity_init_raises example_args_def nuc_chg_dict_def
      state_and_transition_checks_def grid_check_def np_sub_def np_max_def)

text \<open>For no arguments at all does construction end in the grid-mismatch error.\<close>

lemma Impurity_init_no_grid_mismatch:
  "Impurity_init equals saha_dist boltzmann_dist gather_states a levels_dict trans_dict \<noteq>
     Inl GridMismatchError"
  by (simp add: Impurity_init_raises split: option.splits)

text \<open>
  \<^verbatim>\<open>init_dens\<close> itself: with at least one profile sample and one ionization stage the
  Saha-Boltzmann branch reaches the product of the tuple \<^verbatim>\<open>(frac_imp_dens,)\<close> with a numpy
  float, unless an earlier statement has raised already; either way no density is returned.
\<close>

lemma num_Z_alloc_dens: "alloc_dens imp n = Inr imp1 \<Longrightarrow> num_Z imp1 = num_Z imp"
  by (auto simp: alloc_dens_def split: sum.splits)

lemma put_sample_raises: "\<exists>e. put_sample imp d i locs rel_dens Z_dens_loc ne_i = Inl e"
  by (simp add: put_sample_def split: sum.splits)

lemma sample_loop_raises:
  "\<exists>e. sample_loop boltzmann_dist Z_dens z Z_states ne Te imp (i # js) = Inl e"
proof -
  obtain e where "put_sample imp (dens imp) i (map pos Z_states)
      (boltzmann_dist (Te ! i * T_norm imp) (map energy Z_states) (map stat_weight Z_states))
      (Z_dens ! i ! z) (ne ! i) = Inl e"
    using put_sample_raises by blast
  then show ?thesis by (simp add: Let_def)
qed

lemma equilibrium_init_raises:
  assumes "ne \<noteq> []" "0 < num_Z imp"
  shows "\<exists>e. equilibrium_init saha_dist boltzmann_dist gather_states imp ne Te = Inl e"
proof -
  let ?imp1 = "set_state_positions imp"
  have nz: "[0..<num_Z ?imp1] = 0 # [Suc 0..<num_Z imp]"
    using assms(2) by (simp add: set_state_positions_def upt_conv_Cons)
  have ns: "[0..<length ne] = 0 # [Suc 0..<length ne]"
    using assms(1) by (simp add: upt_conv_Cons)
  show ?thesis
  proof (cases "saha_rows saha_dist ?imp1 ne Te [0..<length ne]")
    case (Inl e)
    then show ?thesis by (simp add: equilibrium_init_def Let_def)
  next
    case (Inr Z_dens)
    obtain e where "sample_loop boltzmann_dist Z_dens 0 (gather_states (states ?imp1) 0) ne Te ?imp1
        (0 # [Suc 0..<length ne]) = Inl e"
      using sample_loop_raises by blast
    then show ?thesis
      using Inr by (simp add: equilibrium_init_def Let_def nz ns del: sample_loop.simps)
  qed
qed

lemma init_dens_raises:
  assumes "ne \<noteq> []" "0 < num_Z imp"
  shows "\<exists>e. init_dens saha_dist boltzmann_dist gather_states imp ne Te = Inl e"
proof (cases "alloc_dens imp (length ne)")
  case (Inl e)
  then show ?thesis by (simp add: init_dens_def)
next
  case (Inr imp1)
  with assms(2) have "0 < num_Z imp1" by (simp add: num_Z_alloc_dens)
  from equilibrium_init_raises[OF assms(1) this] Inr show ?thesis
    by (simp add: init_dens_def)
qed

end
